theory Spec2Isabelle
  imports Main
begin

section \<open>Data model (server/src/models)\<close>

text \<open>
  The TypeORM entities are records holding their columns. Primary keys are the uuid
  strings of the source. A nullable column is an \<open>option\<close>. The relation fields
  (\<open>owner\<close>, \<open>note\<close>, \<open>sharedWith\<close>) are not stored: they are the rows reached
  through the foreign-key columns \<open>ownerId\<close>, \<open>noteId\<close>, \<open>sharedWithId\<close>, and a
  query that loads a relation is a lookup in the other table. The \<open>version\<close> counter
  is an unbounded integer (no arithmetic of the source comes near a machine bound).
\<close>

datatype SharePermission = READ | EDIT

record User =
  userId :: string
  userName :: string
  userEmail :: string

record Note =
  noteId :: string
  title :: string
  content :: string
  isArchived :: bool
  ownerId :: string
  version :: int

record NoteShare =
  shareId :: string
  shareNoteId :: string
  sharedWithId :: "string option"
  email :: "string option"
  permission :: SharePermission
  isAccepted :: bool
  isRevoked :: bool
  shareToken :: "string option"

record NoteRevision =
  revisionId :: string
  revContent :: string
  revVersion :: int
  revNoteId :: string
  revUserId :: string

text \<open>The four repositories of \<open>NoteService\<close>: one table each, rows in storage order.\<close>

record db =
  userRepository :: "User list"
  noteRepository :: "Note list"
  noteShareRepository :: "NoteShare list"
  revisionRepository :: "NoteRevision list"

text \<open>
  JavaScript truthiness of a nullable string: \<open>null\<close>/\<open>undefined\<close> and the empty
  string are falsy, every other string is truthy.
\<close>

definition truthy :: "string option \<Rightarrow> bool" where
  "truthy v = (case v of None \<Rightarrow> False | Some s \<Rightarrow> s \<noteq> [])"

text \<open>
  Every \<open>throw new Error(...)\<close> of the note service, one constructor per message,
  and \<open>QueryFailed\<close> for the error of a statement that the database rejects and that
  the service does not catch.
\<close>

datatype error =
    UserNotFound
  | NoteNotFound
  | NoPermissionToAccess
  | NoPermissionToEdit
  | OnlyOwnerCanDelete
  | FailedToDelete
  | OnlyOwnerCanShare
  | InvalidShareToken
  | ShareRevoked
  | ShareAlreadyAccepted
  | ShareAlreadyAcceptedCannotDecline
  | ShareNotIntendedForYou
  | ShareDifferentEmail
  | ShareNotFound
  | OnlyOwnerCanRevoke
  | RevisionNotFound
  | QueryFailed

text \<open>
  The messages that the controllers classify as permission failures
  (\<open>message.includes("permission")\<close>) together with the owner-only refusals.
\<close>

fun isPermissionError :: "error \<Rightarrow> bool" where
  "isPermissionError NoPermissionToAccess = True"
| "isPermissionError NoPermissionToEdit = True"
| "isPermissionError OnlyOwnerCanDelete = True"
| "isPermissionError OnlyOwnerCanShare = True"
| "isPermissionError OnlyOwnerCanRevoke = True"
| "isPermissionError _ = False"

section \<open>Note store: reading a note\<close>

text \<open>
  A note entity as a query returns it: the row, the \<open>shares\<close> relation when it was
  loaded, and the \<open>permission\<close> property that \<open>getNoteById\<close> and \<open>updateNote\<close>
  attach to the object before returning it.
\<close>

record LoadedNote =
  row :: Note
  loadedShares :: "NoteShare list"
  attachedPermission :: "SharePermission option"

definition findNote :: "db \<Rightarrow> string \<Rightarrow> Note option" where
  "findNote d nid = find (\<lambda>n. noteId n = nid) (noteRepository d)"

definition sharesOfNote :: "db \<Rightarrow> string \<Rightarrow> NoteShare list" where
  "sharesOfNote d nid = filter (\<lambda>s. shareNoteId s = nid) (noteShareRepository d)"

text \<open>The predicate of \<open>note.shares.find(...)\<close>, the same in every method that uses it.\<close>

definition grantsAccess :: "string \<Rightarrow> NoteShare \<Rightarrow> bool" where
  "grantsAccess uid s = (sharedWithId s = Some uid \<and> \<not> isRevoked s \<and> isAccepted s)"

definition getNoteById :: "db \<Rightarrow> string \<Rightarrow> string \<Rightarrow> error + LoadedNote" where
  "getNoteById d nid uid =
     (case findNote d nid of
        None \<Rightarrow> Inl NoteNotFound
      | Some n \<Rightarrow>
          if ownerId n \<noteq> uid then
            (case find (grantsAccess uid) (sharesOfNote d nid) of
               None \<Rightarrow> Inl NoPermissionToAccess
             | Some share \<Rightarrow>
                 Inr \<lparr>row = n, loadedShares = [],
                      attachedPermission = Some (permission share)\<rparr>)
          else Inr \<lparr>row = n, loadedShares = [], attachedPermission = Some EDIT\<rparr>)"

section \<open>Note store: writing\<close>

text \<open>
  \<open>repository.create\<close> followed by \<open>save\<close> on an entity with no primary key is an
  INSERT; the uuid that the database generates is a parameter of the operation.
  \<open>save\<close> on an entity that a query returned is an UPDATE of the row with its
  primary key.
\<close>

definition insertRow :: "'a list \<Rightarrow> 'a \<Rightarrow> 'a list" where
  "insertRow rows r = rows @ [r]"

definition updateRow :: "('a \<Rightarrow> string) \<Rightarrow> 'a list \<Rightarrow> 'a \<Rightarrow> 'a list" where
  "updateRow key rows r = map (\<lambda>x. if key x = key r then r else x) rows"

definition findUser :: "db \<Rightarrow> string \<Rightarrow> User option" where
  "findUser d uid = find (\<lambda>u. userId u = uid) (userRepository d)"

record NoteInput =
  inputTitle :: string
  inputContent :: string

record NoteUpdateInput =
  patchTitle :: "string option"
  patchContent :: "string option"
  patchIsArchived :: "bool option"

text \<open>\<open>Note.incrementVersion\<close>: bumps the counter in place and returns the new value.\<close>

definition incrementVersion :: "Note \<Rightarrow> Note \<times> int" where
  "incrementVersion n = (n\<lparr>version := version n + 1\<rparr>, version n + 1)"

definition createNote :: "db \<Rightarrow> string \<Rightarrow> string \<Rightarrow> string \<Rightarrow> NoteInput \<Rightarrow> error + (Note \<times> db)" where
  "createNote d newNoteId newRevisionId uid noteData =
     (case findUser d uid of
        None \<Rightarrow> Inl UserNotFound
      | Some user \<Rightarrow>
          let note = \<lparr>noteId = newNoteId, title = inputTitle noteData,
                      content = inputContent noteData, isArchived = False,
                      ownerId = uid, version = 1\<rparr>;
              d1 = d\<lparr>noteRepository := insertRow (noteRepository d) note\<rparr>;
              revision = \<lparr>revisionId = newRevisionId, revContent = inputContent noteData,
                          revVersion = 1, revNoteId = noteId note, revUserId = uid\<rparr>;
              d2 = d1\<lparr>revisionRepository := insertRow (revisionRepository d1) revision\<rparr>
          in Inr (note, d2))"

text \<open>\<open>Object.assign(note, updateData)\<close>: every property present in the patch overwrites.\<close>

definition assign :: "Note \<Rightarrow> NoteUpdateInput \<Rightarrow> Note" where
  "assign n u =
     n\<lparr>title := (case patchTitle u of None \<Rightarrow> title n | Some t \<Rightarrow> t),
       content := (case patchContent u of None \<Rightarrow> content n | Some c \<Rightarrow> c),
       isArchived := (case patchIsArchived u of None \<Rightarrow> isArchived n | Some a \<Rightarrow> a)\<rparr>"

definition updateNote ::
  "db \<Rightarrow> string \<Rightarrow> string \<Rightarrow> string \<Rightarrow> NoteUpdateInput \<Rightarrow> error + (LoadedNote \<times> db)" where
  "updateNote d newRevisionId nid uid updateData =
     (case findNote d nid of
        None \<Rightarrow> Inl NoteNotFound
      | Some note \<Rightarrow>
          let isOwner = (ownerId note = uid);
              share = find (grantsAccess uid) (sharesOfNote d nid)
          in if \<not> isOwner \<and> (case share of None \<Rightarrow> True | Some s \<Rightarrow> permission s \<noteq> EDIT)
             then Inl NoPermissionToEdit
             else
               let (note1, d1) =
                     (if truthy (patchContent updateData)
                         \<and> patchContent updateData \<noteq> Some (content note)
                      then
                        let (bumped, newVersion) = incrementVersion note;
                            revision = \<lparr>revisionId = newRevisionId, revContent = content bumped,
                                        revVersion = newVersion - 1, revNoteId = nid,
                                        revUserId = uid\<rparr>
                        in (bumped,
                            d\<lparr>revisionRepository := insertRow (revisionRepository d) revision\<rparr>)
                      else (note, d));
                   updatedNote = assign note1 updateData;
                   d2 = d1\<lparr>noteRepository := updateRow noteId (noteRepository d1) updatedNote\<rparr>
               in Inr (\<lparr>row = updatedNote, loadedShares = sharesOfNote d nid,
                         attachedPermission =
                           Some (case share of
                                   None \<Rightarrow> EDIT
                                 | Some s \<Rightarrow> if \<not> isOwner then permission s else EDIT)\<rparr>,
                       d2))"

definition findRevision :: "db \<Rightarrow> string \<Rightarrow> string \<Rightarrow> NoteRevision option" where
  "findRevision d rid nid =
     find (\<lambda>r. revisionId r = rid \<and> revNoteId r = nid) (revisionRepository d)"

text \<open>
  \<open>noteRepository.save\<close> of a note entity that carries its \<open>shares\<close> relation
  writes the relation too: a stored share of the note that is missing from the entity's
  list is detached, that is, its \<open>noteId\<close> is set to null. The column is not
  nullable, so the database rejects the statement and the whole save, which runs in
  one transaction, changes nothing. The entity that \<open>updateNote\<close> saves carries the
  shares as they are stored; the entity that \<open>getNoteById\<close> hands out carries the
  empty list.
\<close>

definition saveLoaded :: "db \<Rightarrow> LoadedNote \<Rightarrow> error + db" where
  "saveLoaded d note =
     (if \<exists>s \<in> set (sharesOfNote d (noteId (row note))).
           shareId s \<notin> set (map shareId (loadedShares note))
      then Inl QueryFailed
      else Inr (d\<lparr>noteRepository := updateRow noteId (noteRepository d) (row note)\<rparr>))"

text \<open>
  \<open>restoreRevision\<close> saves the new revision and then the note, in two statements and
  with no \<open>try\<close> around them: when the save of the note is rejected the revision
  stays. The result is the value or the error thrown, and the database left behind.
\<close>

definition restoreRevision ::
  "db \<Rightarrow> string \<Rightarrow> string \<Rightarrow> string \<Rightarrow> string \<Rightarrow> (error + LoadedNote) \<times> db" where
  "restoreRevision d newRevisionId nid rid uid =
     (case getNoteById d nid uid of
        Inl e \<Rightarrow> (Inl e, d)
      | Inr note \<Rightarrow>
          if ownerId (row note) \<noteq> uid
             \<and> (case find (grantsAccess uid) (loadedShares note) of
                  None \<Rightarrow> True
                | Some s \<Rightarrow> permission s \<noteq> EDIT)
          then (Inl NoPermissionToEdit, d)
          else
            (case findRevision d rid nid of
               None \<Rightarrow> (Inl RevisionNotFound, d)
             | Some revision \<Rightarrow>
                 let (bumped, newVersion) = incrementVersion (row note);
                     newRevision = \<lparr>revisionId = newRevisionId, revContent = content bumped,
                                    revVersion = newVersion - 1, revNoteId = nid,
                                    revUserId = uid\<rparr>;
                     d1 = d\<lparr>revisionRepository :=
                              insertRow (revisionRepository d) newRevision\<rparr>;
                     restored = note\<lparr>row := bumped\<lparr>content := revContent revision\<rparr>\<rparr>
                 in (case saveLoaded d1 restored of
                       Inl e \<Rightarrow> (Inl e, d1)
                     | Inr d2 \<Rightarrow> (Inr restored, d2))))"

text \<open>
  \<open>deleteNote\<close> is the one method that catches storage failures, so the failing of a
  storage statement is modelled here: \<open>fails\<close> says which of the three statements of
  the cascade the database rejects. A rejected statement changes nothing. The outcome
  records the error thrown (if any), the database left behind and the statements that
  ran to completion, in the order in which they ran.
\<close>

datatype cascadeStep = DeleteRevisions | DeleteShares | RemoveNote

record deleteOutcome =
  thrown :: "error option"
  dbAfter :: db
  executed :: "cascadeStep list"

definition deleteRevisionsOf :: "db \<Rightarrow> string \<Rightarrow> db" where
  "deleteRevisionsOf d nid =
     d\<lparr>revisionRepository := filter (\<lambda>r. revNoteId r \<noteq> nid) (revisionRepository d)\<rparr>"

definition deleteSharesOf :: "db \<Rightarrow> string \<Rightarrow> db" where
  "deleteSharesOf d nid =
     d\<lparr>noteShareRepository := filter (\<lambda>s. shareNoteId s \<noteq> nid) (noteShareRepository d)\<rparr>"

definition removeNote :: "db \<Rightarrow> Note \<Rightarrow> db" where
  "removeNote d n =
     d\<lparr>noteRepository := filter (\<lambda>m. noteId m \<noteq> noteId n) (noteRepository d)\<rparr>"

definition deleteNote :: "(cascadeStep \<Rightarrow> bool) \<Rightarrow> db \<Rightarrow> string \<Rightarrow> string \<Rightarrow> deleteOutcome" where
  "deleteNote fails d nid uid =
     (case getNoteById d nid uid of
        Inl e \<Rightarrow> \<lparr>thrown = Some e, dbAfter = d, executed = []\<rparr>
      | Inr note \<Rightarrow>
          if ownerId (row note) \<noteq> uid
          then \<lparr>thrown = Some OnlyOwnerCanDelete, dbAfter = d, executed = []\<rparr>
          else if fails DeleteRevisions
          then \<lparr>thrown = Some FailedToDelete, dbAfter = d, executed = []\<rparr>
          else
            let d1 = deleteRevisionsOf d nid in
            if fails DeleteShares
            then \<lparr>thrown = Some FailedToDelete, dbAfter = d1, executed = [DeleteRevisions]\<rparr>
            else
              let d2 = deleteSharesOf d1 nid in
              if fails RemoveNote
              then \<lparr>thrown = Some FailedToDelete, dbAfter = d2,
                    executed = [DeleteRevisions, DeleteShares]\<rparr>
              else \<lparr>thrown = None, dbAfter = removeNote d2 (row note),
                    executed = [DeleteRevisions, DeleteShares, RemoveNote]\<rparr>)"

section \<open>Broadcaster (socket.service)\<close>

text \<open>
  A connected socket: its socket.io id, the \<open>userId\<close> that the authentication
  middleware stored on it, the \<open>currentRooms\<close> set that the handlers maintain, and
  the rooms that socket.io itself has the socket joined to (\<open>socket.join\<close> /
  \<open>socket.leave\<close>), which decide where a room broadcast is delivered.
\<close>

record Socket =
  socketId :: string
  socketUserId :: "string option"
  currentRooms :: "string set"
  joinedRooms :: "string set"

text \<open>
  The state of \<open>SocketService\<close> that the modelled methods read: the connected
  sockets of the server \<open>io\<close> and the \<open>userRooms\<close> dictionary (user id to the
  name of the personal room).
\<close>

record SocketService =
  io :: "Socket list"
  userRooms :: "string \<rightharpoonup> string"

record ContentChange =
  changeNoteId :: string
  changeContent :: string
  changeTitle :: "string option"
  changeCursorPosition :: "(string \<times> int) option"

record ContentUpdate =
  updNoteId :: string
  updContent :: string
  updTitle :: "string option"
  updCursorPosition :: "(string \<times> int) option"
  updUserId :: string
  updTimestamp :: nat

text \<open>The \<open>data\<close> object spread into a \<open>notification\<close> event.\<close>

record NotificationData =
  dataNoteId :: string
  dataAction :: string
  dataNoteTitle :: "string option"
  dataShareId :: "string option"
  dataActor :: "(string \<times> string) option"

text \<open>
  The argument of \<open>broadcastShareUpdate\<close>: the share is sent with all its columns,
  the loaded \<open>sharedWith\<close> user, and the note cut down to id and title.
\<close>

record ShareUpdate =
  suNoteId :: string
  suShareId :: string
  suRevoked :: "bool option"
  suShare :: "(NoteShare \<times> User option \<times> string \<times> string) option"

datatype event =
    ErrorEvent string
  | ContentUpdateEvent ContentUpdate
  | NoteSharedEvent string string
  | NotificationEvent string NotificationData
  | ShareUpdatedEvent ShareUpdate

text \<open>
  Where an \<open>emit\<close> is addressed: \<open>socket.emit\<close> (the socket itself),
  \<open>socket.to(room).emit\<close> (the room without the socket), \<open>io.to(room).emit\<close> (the
  whole room), \<open>io.emit\<close> (every connected socket).
\<close>

datatype target =
    ToSocket string
  | ToRoomExcept string string
  | ToRoom string
  | ToAll

type_synonym emission = "target \<times> event"

fun recipients :: "SocketService \<Rightarrow> target \<Rightarrow> Socket list" where
  "recipients srv (ToSocket sid) = filter (\<lambda>s. socketId s = sid) (io srv)"
| "recipients srv (ToRoomExcept room sid) =
     filter (\<lambda>s. room \<in> joinedRooms s \<and> socketId s \<noteq> sid) (io srv)"
| "recipients srv (ToRoom room) = filter (\<lambda>s. room \<in> joinedRooms s) (io srv)"
| "recipients srv ToAll = io srv"

text \<open>The events that reach the sockets: one pair of socket id and event per delivery.\<close>

definition delivered :: "SocketService \<Rightarrow> emission list \<Rightarrow> (string \<times> event) list" where
  "delivered srv es =
     concat (map (\<lambda>(t, e). map (\<lambda>s. (socketId s, e)) (recipients srv t)) es)"

definition notifyNoteShared :: "string \<Rightarrow> string \<Rightarrow> string \<Rightarrow> emission list" where
  "notifyNoteShared uid nid sharerName =
     [(ToRoom (''user:'' @ uid), NoteSharedEvent nid sharerName)]"

definition sendUserNotification ::
  "SocketService \<Rightarrow> string \<Rightarrow> string \<Rightarrow> NotificationData \<Rightarrow> emission list" where
  "sendUserNotification srv uid message data =
     (case userRooms srv uid of
        None \<Rightarrow> []
      | Some room \<Rightarrow> if room \<noteq> [] then [(ToRoom room, NotificationEvent message data)] else [])"

definition broadcastShareUpdate :: "ShareUpdate \<Rightarrow> emission list" where
  "broadcastShareUpdate data = [(ToAll, ShareUpdatedEvent data)]"

text \<open>
  The \<open>content-change\<close> handler of a socket. \<open>now\<close> is the server clock read by
  \<open>new Date()\<close>; the note service of the handler is built without a socket service.
  The result is what the handler emitted and the database it left.
\<close>

definition onContentChange ::
  "db \<Rightarrow> string \<Rightarrow> nat \<Rightarrow> Socket \<Rightarrow> ContentChange \<Rightarrow> emission list \<times> db" where
  "onContentChange d newRevisionId now socket change =
     (let roomName = ''note:'' @ changeNoteId change in
      case socketUserId socket of
        None \<Rightarrow> ([(ToSocket (socketId socket), ErrorEvent ''Authentication required'')], d)
      | Some uid \<Rightarrow>
          if uid = [] then
            ([(ToSocket (socketId socket), ErrorEvent ''Authentication required'')], d)
          else if roomName \<in> currentRooms socket then
            let broadcast =
                  [(ToRoomExcept roomName (socketId socket),
                    ContentUpdateEvent
                      \<lparr>updNoteId = changeNoteId change, updContent = changeContent change,
                       updTitle = changeTitle change,
                       updCursorPosition = changeCursorPosition change,
                       updUserId = uid, updTimestamp = now\<rparr>)]
            in if truthy (changeTitle change) then
                 (case updateNote d newRevisionId (changeNoteId change) uid
                         \<lparr>patchTitle = changeTitle change,
                          patchContent = Some (changeContent change),
                          patchIsArchived = None\<rparr> of
                    Inl e \<Rightarrow>
                      (broadcast @ [(ToSocket (socketId socket),
                                     ErrorEvent ''Failed to save note'')], d)
                  | Inr (saved, d') \<Rightarrow> (broadcast, d'))
               else (broadcast, d)
          else ([], d))"

section \<open>Share registry\<close>

record ShareNoteInput =
  shareInputNoteId :: string
  shareInputEmail :: string
  shareInputPermission :: "SharePermission option"

text \<open>\<open>user.name || user.email\<close>\<close>

definition displayName :: "User \<Rightarrow> string" where
  "displayName u = (if userName u \<noteq> [] then userName u else userEmail u)"

text \<open>
  The relations \<open>share.note\<close> and \<open>share.note.owner\<close> as the queries load them. The
  foreign keys make both present for every stored share; the model sends no
  notification where either is missing.
\<close>

definition noteOfShare :: "db \<Rightarrow> NoteShare \<Rightarrow> Note option" where
  "noteOfShare d s = findNote d (shareNoteId s)"

definition ownerOfShare :: "db \<Rightarrow> NoteShare \<Rightarrow> User option" where
  "ownerOfShare d s =
     (case noteOfShare d s of None \<Rightarrow> None | Some n \<Rightarrow> findUser d (ownerId n))"

definition findShareByToken :: "db \<Rightarrow> string \<Rightarrow> NoteShare option" where
  "findShareByToken d token = find (\<lambda>s. shareToken s = Some token) (noteShareRepository d)"

definition findShareById :: "db \<Rightarrow> string \<Rightarrow> NoteShare option" where
  "findShareById d sid = find (\<lambda>s. shareId s = sid) (noteShareRepository d)"

text \<open>
  Every method of the registry takes the socket service that the \<open>NoteService\<close> was
  constructed with (\<open>None\<close> for \<open>null\<close>) and returns its value, the database after it
  and the events it emitted. The share id and the token of a new share are the uuids
  generated for it. \<open>note.owner.id\<close> is the \<open>ownerId\<close> column of the note (the
  relation is loaded through that foreign key).
\<close>

definition shareNote ::
  "SocketService option \<Rightarrow> db \<Rightarrow> string \<Rightarrow> string \<Rightarrow> string \<Rightarrow> ShareNoteInput
     \<Rightarrow> error + (NoteShare \<times> db \<times> emission list)" where
  "shareNote svc d newShareId newToken uid shareData =
     (let nid = shareInputNoteId shareData;
          perm = (case shareInputPermission shareData of None \<Rightarrow> READ | Some p \<Rightarrow> p)
      in case getNoteById d nid uid of
           Inl e \<Rightarrow> Inl e
         | Inr note \<Rightarrow>
             if ownerId (row note) \<noteq> uid then Inl OnlyOwnerCanShare
             else
               let targetUser =
                     find (\<lambda>u. userEmail u = shareInputEmail shareData) (userRepository d);
                   share = \<lparr>shareId = newShareId, shareNoteId = nid,
                            sharedWithId = map_option userId targetUser,
                            email = Some (shareInputEmail shareData),
                            permission = perm, isAccepted = False, isRevoked = False,
                            shareToken = Some newToken\<rparr>;
                   d' = d\<lparr>noteShareRepository := insertRow (noteShareRepository d) share\<rparr>;
                   emitted =
                     (case (svc, targetUser) of
                        (Some srv, Some target) \<Rightarrow>
                          notifyNoteShared (userId target) nid
                            (case findUser d uid of
                               None \<Rightarrow> ''Someone''
                             | Some ownerUser \<Rightarrow> displayName ownerUser)
                      | _ \<Rightarrow> [])
               in Inr (share, d', emitted))"

definition acceptSharedNote ::
  "SocketService option \<Rightarrow> db \<Rightarrow> string \<Rightarrow> string
     \<Rightarrow> error + (Note option \<times> db \<times> emission list)" where
  "acceptSharedNote svc d token uid =
     (case findShareByToken d token of
        None \<Rightarrow> Inl InvalidShareToken
      | Some share \<Rightarrow>
          if isRevoked share then Inl ShareRevoked
          else if isAccepted share then Inl ShareAlreadyAccepted
          else if truthy (sharedWithId share) \<and> sharedWithId share \<noteq> Some uid
          then Inl ShareNotIntendedForYou
          else
            (case findUser d uid of
               None \<Rightarrow> Inl UserNotFound
             | Some user \<Rightarrow>
                 if truthy (email share) \<and> email share \<noteq> Some (userEmail user)
                 then Inl ShareDifferentEmail
                 else
                   let share' = share\<lparr>sharedWithId := Some uid, isAccepted := True\<rparr>;
                       d' = d\<lparr>noteShareRepository :=
                                updateRow shareId (noteShareRepository d) share'\<rparr>;
                       emitted =
                         (case (svc, ownerOfShare d share) of
                            (Some srv, Some owner) \<Rightarrow>
                              sendUserNotification srv (userId owner)
                                (displayName user @ '' accepted your shared note'')
                                \<lparr>dataNoteId = shareNoteId share,
                                 dataAction = ''share-accepted'',
                                 dataNoteTitle = None, dataShareId = None,
                                 dataActor = Some (userId user, displayName user)\<rparr>
                          | _ \<Rightarrow> [])
                   in Inr (noteOfShare d share, d', emitted)))"

definition declineSharedNote ::
  "SocketService option \<Rightarrow> db \<Rightarrow> string \<Rightarrow> string \<Rightarrow> error + (unit \<times> db \<times> emission list)" where
  "declineSharedNote svc d token uid =
     (case findShareByToken d token of
        None \<Rightarrow> Inl InvalidShareToken
      | Some share \<Rightarrow>
          if isRevoked share then Inl ShareRevoked
          else if isAccepted share then Inl ShareAlreadyAcceptedCannotDecline
          else if truthy (sharedWithId share) \<and> sharedWithId share \<noteq> Some uid
          then Inl ShareNotIntendedForYou
          else
            (case findUser d uid of
               None \<Rightarrow> Inl UserNotFound
             | Some user \<Rightarrow>
                 if truthy (email share) \<and> email share \<noteq> Some (userEmail user)
                 then Inl ShareDifferentEmail
                 else
                   let share' = share\<lparr>isRevoked := True, sharedWithId := Some uid\<rparr>;
                       d' = d\<lparr>noteShareRepository :=
                                updateRow shareId (noteShareRepository d) share'\<rparr>;
                       emitted =
                         (case (svc, ownerOfShare d share) of
                            (Some srv, Some owner) \<Rightarrow>
                              sendUserNotification srv (userId owner)
                                (displayName user @ '' declined your shared note'')
                                \<lparr>dataNoteId = shareNoteId share,
                                 dataAction = ''share-declined'',
                                 dataNoteTitle = None, dataShareId = None,
                                 dataActor = Some (userId user, displayName user)\<rparr>
                          | _ \<Rightarrow> [])
                   in Inr ((), d', emitted)))"

text \<open>\<open>share.email || share.sharedWith?.email\<close> inside a template literal.\<close>

definition revokedRecipientLabel :: "NoteShare \<Rightarrow> User option \<Rightarrow> string" where
  "revokedRecipientLabel share sharedWith =
     (case email share of
        Some e \<Rightarrow> if e \<noteq> [] then e
                  else (case sharedWith of None \<Rightarrow> ''undefined'' | Some u \<Rightarrow> userEmail u)
      | None \<Rightarrow> (case sharedWith of None \<Rightarrow> ''undefined'' | Some u \<Rightarrow> userEmail u))"

definition revokeShare ::
  "SocketService option \<Rightarrow> db \<Rightarrow> string \<Rightarrow> string \<Rightarrow> error + (unit \<times> db \<times> emission list)" where
  "revokeShare svc d sid uid =
     (case findShareById d sid of
        None \<Rightarrow> Inl ShareNotFound
      | Some share \<Rightarrow>
          (case getNoteById d (shareNoteId share) uid of
             Inl e \<Rightarrow> Inl e
           | Inr note \<Rightarrow>
               if ownerId (row note) \<noteq> uid then Inl OnlyOwnerCanRevoke
               else
                 let share' = share\<lparr>isRevoked := True\<rparr>;
                     d' = d\<lparr>noteShareRepository :=
                              updateRow shareId (noteShareRepository d) share'\<rparr>;
                     sharedWith =
                       (case sharedWithId share of None \<Rightarrow> None | Some w \<Rightarrow> findUser d w);
                     emitted =
                       (case svc of
                          None \<Rightarrow> []
                        | Some srv \<Rightarrow>
                            (case sharedWithId share' of
                               None \<Rightarrow> []
                             | Some w \<Rightarrow>
                                 if w = [] then []
                                 else
                                   sendUserNotification srv w
                                     ''Access to a shared note has been revoked''
                                     \<lparr>dataNoteId = shareNoteId share',
                                      dataAction = ''share-revoked'',
                                      dataNoteTitle = Some (title (row note)),
                                      dataShareId = Some (shareId share'),
                                      dataActor = None\<rparr>
                                   @ broadcastShareUpdate
                                       \<lparr>suNoteId = shareNoteId share',
                                        suShareId = shareId share',
                                        suRevoked = Some True,
                                        suShare = Some (share', sharedWith,
                                                        shareNoteId share', title (row note))\<rparr>)
                            @ sendUserNotification srv uid
                                (''Share with '' @ revokedRecipientLabel share' sharedWith
                                   @ '' was revoked'')
                                \<lparr>dataNoteId = shareNoteId share',
                                 dataAction = ''share-revoked-by-owner'',
                                 dataNoteTitle = None,
                                 dataShareId = Some (shareId share'),
                                 dataActor = None\<rparr>)
                 in Inr ((), d', emitted)))"

text \<open>
  The four operations on shares, as requests with their arguments, and a run of a
  sequence of requests: a request that throws leaves the database as it was.
\<close>

datatype shareRequest =
    ShareNote string string string ShareNoteInput
  | AcceptSharedNote string string
  | DeclineSharedNote string string
  | RevokeShare string string

fun handleRequest :: "SocketService option \<Rightarrow> db \<Rightarrow> shareRequest \<Rightarrow> db" where
  "handleRequest svc d (ShareNote newShareId newToken uid shareData) =
     (case shareNote svc d newShareId newToken uid shareData of
        Inl e \<Rightarrow> d | Inr (share, d', es) \<Rightarrow> d')"
| "handleRequest svc d (AcceptSharedNote token uid) =
     (case acceptSharedNote svc d token uid of Inl e \<Rightarrow> d | Inr (n, d', es) \<Rightarrow> d')"
| "handleRequest svc d (DeclineSharedNote token uid) =
     (case declineSharedNote svc d token uid of Inl e \<Rightarrow> d | Inr (u, d', es) \<Rightarrow> d')"
| "handleRequest svc d (RevokeShare sid uid) =
     (case revokeShare svc d sid uid of Inl e \<Rightarrow> d | Inr (u, d', es) \<Rightarrow> d')"

fun handleRequests :: "SocketService option \<Rightarrow> db \<Rightarrow> shareRequest list \<Rightarrow> db" where
  "handleRequests svc d [] = d"
| "handleRequests svc d (r # rs) = handleRequests svc (handleRequest svc d r) rs"

text \<open>
  The uuid generated for a new share is one that no stored share has: each
  \<open>shareNote\<close> request of a sequence brings an id that is unused in the database
  it meets.
\<close>

fun freshShareIds :: "SocketService option \<Rightarrow> db \<Rightarrow> shareRequest list \<Rightarrow> bool" where
  "freshShareIds svc d [] = True"
| "freshShareIds svc d (r # rs) =
     ((case r of
         ShareNote newShareId newToken uid shareData \<Rightarrow>
           newShareId \<notin> set (map shareId (noteShareRepository d))
       | _ \<Rightarrow> True)
      \<and> freshShareIds svc (handleRequest svc d r) rs)"

section \<open>A small database for concrete instances\<close>

text \<open>
  Alice owns one note; Bob holds an accepted read share, Dave an accepted edit share,
  Carol a pending invitation; the ledger holds the revision written at creation.
\<close>

definition alice :: User where
  "alice = \<lparr>userId = ''alice'', userName = ''Alice'', userEmail = ''a@x.com''\<rparr>"

definition bob :: User where
  "bob = \<lparr>userId = ''bob'', userName = ''Bob'', userEmail = ''b@x.com''\<rparr>"

definition carol :: User where
  "carol = \<lparr>userId = ''carol'', userName = ''Carol'', userEmail = ''c@x.com''\<rparr>"

definition dave :: User where
  "dave = \<lparr>userId = ''dave'', userName = ''Dave'', userEmail = ''d@x.com''\<rparr>"

definition demoNote :: Note where
  "demoNote = \<lparr>noteId = ''n1'', title = ''T'', content = ''C1'', isArchived = False,
               ownerId = ''alice'', version = 1\<rparr>"

definition bobShare :: NoteShare where
  "bobShare = \<lparr>shareId = ''s1'', shareNoteId = ''n1'', sharedWithId = Some ''bob'',
               email = Some ''b@x.com'', permission = READ, isAccepted = True,
               isRevoked = False, shareToken = Some ''t1''\<rparr>"

definition daveShare :: NoteShare where
  "daveShare = \<lparr>shareId = ''s2'', shareNoteId = ''n1'', sharedWithId = Some ''dave'',
                email = Some ''d@x.com'', permission = EDIT, isAccepted = True,
                isRevoked = False, shareToken = Some ''t2''\<rparr>"

definition carolShare :: NoteShare where
  "carolShare = \<lparr>shareId = ''s3'', shareNoteId = ''n1'', sharedWithId = Some ''carol'',
                 email = Some ''c@x.com'', permission = EDIT, isAccepted = False,
                 isRevoked = False, shareToken = Some ''t3''\<rparr>"

definition firstRevision :: NoteRevision where
  "firstRevision = \<lparr>revisionId = ''r1'', revContent = ''C1'', revVersion = 1,
                    revNoteId = ''n1'', revUserId = ''alice''\<rparr>"

definition demoDb :: db where
  "demoDb = \<lparr>userRepository = [alice, bob, carol, dave],
             noteRepository = [demoNote],
             noteShareRepository = [bobShare, daveShare, carolShare],
             revisionRepository = [firstRevision]\<rparr>"

lemmas demo_defs =
  alice_def bob_def carol_def dave_def demoNote_def bobShare_def daveShare_def
  carolShare_def firstRevision_def demoDb_def

section \<open>Vocabulary of the properties\<close>

text \<open>
  A permitted editor of a note: a user whom the access decision of \<open>getNoteById\<close>
  resolves to \<open>edit\<close> (the owner, or the holder of an accepted, non-revoked share
  with edit permission).
\<close>

definition hasEditPermission :: "db \<Rightarrow> string \<Rightarrow> string \<Rightarrow> bool" where
  "hasEditPermission d nid uid =
     (case getNoteById d nid uid of
        Inl e \<Rightarrow> False
      | Inr note \<Rightarrow> attachedPermission note = Some EDIT)"

text \<open>The revision ledger of a note: its revisions in the order they were written.\<close>

definition revisionsOfNote :: "db \<Rightarrow> string \<Rightarrow> NoteRevision list" where
  "revisionsOfNote d nid = filter (\<lambda>r. revNoteId r = nid) (revisionRepository d)"

text \<open>
  How a share row may differ between an earlier and a later state: same id, a set
  \<open>isRevoked\<close> or \<open>isAccepted\<close> flag stays set, and a revoked share keeps the
  \<open>isAccepted\<close> flag it had.
\<close>

definition evolves :: "NoteShare \<Rightarrow> NoteShare \<Rightarrow> bool" where
  "evolves s s' =
     (shareId s' = shareId s
      \<and> (isRevoked s \<longrightarrow> isRevoked s')
      \<and> (isAccepted s \<longrightarrow> isAccepted s')
      \<and> (isRevoked s \<longrightarrow> isAccepted s' = isAccepted s))"

text \<open>Every share row of the earlier database has its later version in the later one.\<close>

definition sharesEvolve :: "db \<Rightarrow> db \<Rightarrow> bool" where
  "sharesEvolve d d' =
     (\<forall>s \<in> set (noteShareRepository d). \<exists>s' \<in> set (noteShareRepository d'). evolves s s')"

text \<open>A sequence of share requests on the demo database.\<close>

definition demoRequests :: "shareRequest list" where
  "demoRequests =
     [AcceptSharedNote ''t3'' ''carol'', RevokeShare ''s3'' ''alice'',
      AcceptSharedNote ''t3'' ''carol'', RevokeShare ''s1'' ''alice'',
      ShareNote ''s4'' ''t4'' ''alice''
        \<lparr>shareInputNoteId = ''n1'', shareInputEmail = ''b@x.com'',
         shareInputPermission = Some EDIT\<rparr>,
      DeclineSharedNote ''t4'' ''bob'', AcceptSharedNote ''t4'' ''bob'']"

text \<open>
  Shares that meet the guards of \<open>acceptSharedNote\<close>: one that was accepted and
  then revoked, one addressed to an email that no user has, and the one that
  \<open>shareNote\<close> creates for the empty email string (the share endpoint passes the
  email of the request body on as it is).
\<close>

definition revokedShare :: NoteShare where
  "revokedShare = \<lparr>shareId = ''s6'', shareNoteId = ''n1'', sharedWithId = Some ''dave'',
                   email = Some ''d@x.com'', permission = READ, isAccepted = True,
                   isRevoked = True, shareToken = Some ''t6''\<rparr>"

definition strangerShare :: NoteShare where
  "strangerShare = \<lparr>shareId = ''s7'', shareNoteId = ''n1'', sharedWithId = None,
                    email = Some ''z@x.com'', permission = READ, isAccepted = False,
                    isRevoked = False, shareToken = Some ''t7''\<rparr>"

definition blankShare :: NoteShare where
  "blankShare = \<lparr>shareId = ''s5'', shareNoteId = ''n1'', sharedWithId = None,
                 email = Some [], permission = READ, isAccepted = False,
                 isRevoked = False, shareToken = Some ''t5''\<rparr>"

definition registryDb :: db where
  "registryDb =
     demoDb\<lparr>noteShareRepository := [carolShare, bobShare, revokedShare, strangerShare]\<rparr>"

definition blankDb :: db where
  "blankDb = demoDb\<lparr>noteShareRepository := [blankShare]\<rparr>"

text \<open>Databases for concrete instances of the ledger.\<close>

definition emptyDb :: db where
  "emptyDb = \<lparr>userRepository = [], noteRepository = [], noteShareRepository = [],
              revisionRepository = []\<rparr>"

definition aliceOnlyDb :: db where
  "aliceOnlyDb = emptyDb\<lparr>userRepository := [alice]\<rparr>"

definition createdDb :: db where
  "createdDb = aliceOnlyDb\<lparr>noteRepository := [demoNote], revisionRepository := [firstRevision]\<rparr>"

text \<open>
  A server with three connected sockets: Dave and Bob have
  joined the room of the demo note, Eve is connected and has no share of the note and
  has joined no note room. Two content changes from the editor: one with the empty
  title, one with a new title.
\<close>

definition daveSocket :: Socket where
  "daveSocket = \<lparr>socketId = ''k1'', socketUserId = Some ''dave'',
                 currentRooms = {''note:n1''},
                 joinedRooms = {''k1'', ''user:dave'', ''note:n1''}\<rparr>"

definition bobSocket :: Socket where
  "bobSocket = \<lparr>socketId = ''k2'', socketUserId = Some ''bob'',
                currentRooms = {''note:n1''},
                joinedRooms = {''k2'', ''user:bob'', ''note:n1''}\<rparr>"

definition eveSocket :: Socket where
  "eveSocket = \<lparr>socketId = ''k3'', socketUserId = Some ''eve'',
                currentRooms = {}, joinedRooms = {''k3'', ''user:eve''}\<rparr>"

definition demoServer :: SocketService where
  "demoServer = \<lparr>io = [daveSocket, bobSocket, eveSocket],
                 userRooms = [''dave'' \<mapsto> ''user:dave'', ''bob'' \<mapsto> ''user:bob'',
                              ''eve'' \<mapsto> ''user:eve'']\<rparr>"

definition blankTitleChange :: ContentChange where
  "blankTitleChange = \<lparr>changeNoteId = ''n1'', changeContent = ''C2'', changeTitle = Some [],
                        changeCursorPosition = None\<rparr>"

definition titledChange :: ContentChange where
  "titledChange = \<lparr>changeNoteId = ''n1'', changeContent = ''C2'', changeTitle = Some ''T2'',
                    changeCursorPosition = None\<rparr>"

section \<open>Access decision\<close>

lemma find_grantsAccess_None:
  "(find (grantsAccess uid) (sharesOfNote d nid) = None) =
   (\<forall>s \<in> set (noteShareRepository d). shareNoteId s = nid \<longrightarrow> \<not> grantsAccess uid s)"
  by (auto simp: find_None_iff sharesOfNote_def)

lemma find_grantsAccess_Some:
  assumes "find (grantsAccess uid) (sharesOfNote d nid) = Some s"
  shows "s \<in> set (noteShareRepository d) \<and> shareNoteId s = nid \<and> grantsAccess uid s"
proof -
  from assms have "s \<in> set (sharesOfNote d nid) \<and> grantsAccess uid s"
    by (auto simp: find_Some_iff in_set_conv_nth)
  then show ?thesis by (simp add: sharesOfNote_def)
qed

text \<open>
  Claim C1. For a stored note \<open>n\<close> and any user \<open>uid\<close>: the owner is resolved to
  \<open>EDIT\<close> whatever the share rows say; a non-owner for whom some share of the note
  has \<open>sharedWithId = uid\<close>, accepted and not revoked, is resolved to the permission
  of such a share: the first one in the note's share list, so the permission of any
  such share \<open>s\<close> with which all such shares agree (in particular of the only
  one); any other user is refused with the permission error.
\<close>

theorem getNoteById_access_decision:
  assumes "findNote d nid = Some n"
  shows "(ownerId n = uid \<longrightarrow>
            getNoteById d nid uid =
              Inr \<lparr>row = n, loadedShares = [], attachedPermission = Some EDIT\<rparr>)
       \<and> (ownerId n \<noteq> uid \<longrightarrow>
            (\<exists>s \<in> set (noteShareRepository d). shareNoteId s = nid \<and> sharedWithId s = Some uid
                                  \<and> isAccepted s \<and> \<not> isRevoked s) \<longrightarrow>
            (\<exists>s \<in> set (noteShareRepository d). shareNoteId s = nid \<and> sharedWithId s = Some uid
                \<and> isAccepted s \<and> \<not> isRevoked s
                \<and> find (grantsAccess uid) (sharesOfNote d nid) = Some s
                \<and> getNoteById d nid uid =
                    Inr \<lparr>row = n, loadedShares = [],
                         attachedPermission = Some (permission s)\<rparr>))
       \<and> (\<forall>s. ownerId n \<noteq> uid
              \<and> s \<in> set (noteShareRepository d) \<and> shareNoteId s = nid
              \<and> sharedWithId s = Some uid \<and> isAccepted s \<and> \<not> isRevoked s
              \<and> (\<forall>t \<in> set (noteShareRepository d).
                     shareNoteId t = nid \<and> sharedWithId t = Some uid
                     \<and> isAccepted t \<and> \<not> isRevoked t \<longrightarrow> permission t = permission s) \<longrightarrow>
              getNoteById d nid uid =
                Inr \<lparr>row = n, loadedShares = [],
                     attachedPermission = Some (permission s)\<rparr>)
       \<and> (ownerId n \<noteq> uid \<longrightarrow>
            \<not> (\<exists>s \<in> set (noteShareRepository d). shareNoteId s = nid \<and> sharedWithId s = Some uid
                                  \<and> isAccepted s \<and> \<not> isRevoked s) \<longrightarrow>
            getNoteById d nid uid = Inl NoPermissionToAccess
            \<and> isPermissionError NoPermissionToAccess)"
proof (intro conjI impI allI)
  assume "ownerId n = uid"
  with assms show "getNoteById d nid uid =
      Inr \<lparr>row = n, loadedShares = [], attachedPermission = Some EDIT\<rparr>"
    by (simp add: getNoteById_def)
next
  assume no: "ownerId n \<noteq> uid"
    and ex: "\<exists>s \<in> set (noteShareRepository d). shareNoteId s = nid \<and> sharedWithId s = Some uid
                                  \<and> isAccepted s \<and> \<not> isRevoked s"
  from ex have "find (grantsAccess uid) (sharesOfNote d nid) \<noteq> None"
    unfolding find_grantsAccess_None by (auto simp: grantsAccess_def)
  then obtain s where f: "find (grantsAccess uid) (sharesOfNote d nid) = Some s"
    by auto
  from find_grantsAccess_Some [OF f]
  have m: "s \<in> set (noteShareRepository d)" "shareNoteId s = nid" "grantsAccess uid s"
    by simp_all
  from assms no f have "getNoteById d nid uid =
      Inr \<lparr>row = n, loadedShares = [], attachedPermission = Some (permission s)\<rparr>"
    by (simp add: getNoteById_def)
  with m f show "\<exists>s \<in> set (noteShareRepository d). shareNoteId s = nid \<and> sharedWithId s = Some uid
                \<and> isAccepted s \<and> \<not> isRevoked s
                \<and> find (grantsAccess uid) (sharesOfNote d nid) = Some s
                \<and> getNoteById d nid uid =
                    Inr \<lparr>row = n, loadedShares = [],
                         attachedPermission = Some (permission s)\<rparr>"
    by (auto simp: grantsAccess_def)
next
  fix s
  assume a: "ownerId n \<noteq> uid
              \<and> s \<in> set (noteShareRepository d) \<and> shareNoteId s = nid
              \<and> sharedWithId s = Some uid \<and> isAccepted s \<and> \<not> isRevoked s
              \<and> (\<forall>t \<in> set (noteShareRepository d).
                     shareNoteId t = nid \<and> sharedWithId t = Some uid
                     \<and> isAccepted t \<and> \<not> isRevoked t \<longrightarrow> permission t = permission s)"
  then have no: "ownerId n \<noteq> uid"
    and mem: "s \<in> set (noteShareRepository d)" "shareNoteId s = nid"
    and q: "sharedWithId s = Some uid" "isAccepted s" "\<not> isRevoked s"
    and agree: "\<forall>t \<in> set (noteShareRepository d).
                     shareNoteId t = nid \<and> sharedWithId t = Some uid
                     \<and> isAccepted t \<and> \<not> isRevoked t \<longrightarrow> permission t = permission s"
    by blast+
  from q have g: "grantsAccess uid s"
    by (simp add: grantsAccess_def)
  from mem g have "find (grantsAccess uid) (sharesOfNote d nid) \<noteq> None"
    unfolding find_grantsAccess_None by blast
  then obtain s' where f: "find (grantsAccess uid) (sharesOfNote d nid) = Some s'"
    by blast
  from find_grantsAccess_Some [OF f]
  have "s' \<in> set (noteShareRepository d)" "shareNoteId s' = nid"
    "sharedWithId s' = Some uid" "isAccepted s'" "\<not> isRevoked s'"
    by (simp_all add: grantsAccess_def)
  with agree have "permission s' = permission s"
    by blast
  with assms no f show "getNoteById d nid uid =
      Inr \<lparr>row = n, loadedShares = [], attachedPermission = Some (permission s)\<rparr>"
    by (simp add: getNoteById_def)
next
  assume no: "ownerId n \<noteq> uid"
    and nex: "\<not> (\<exists>s \<in> set (noteShareRepository d). shareNoteId s = nid \<and> sharedWithId s = Some uid
                                  \<and> isAccepted s \<and> \<not> isRevoked s)"
  from nex have "find (grantsAccess uid) (sharesOfNote d nid) = None"
    unfolding find_grantsAccess_None by (auto simp: grantsAccess_def)
  with assms no show "getNoteById d nid uid = Inl NoPermissionToAccess"
    by (simp add: getNoteById_def)
next
  show "isPermissionError NoPermissionToAccess" by simp
qed

theorem getNoteById_access_decision_witness:
  "findNote demoDb ''n1'' = Some demoNote
   \<and> getNoteById demoDb ''n1'' ''alice'' =
       Inr \<lparr>row = demoNote, loadedShares = [], attachedPermission = Some EDIT\<rparr>
   \<and> bobShare \<in> set (noteShareRepository demoDb)
   \<and> getNoteById demoDb ''n1'' ''bob'' =
       Inr \<lparr>row = demoNote, loadedShares = [], attachedPermission = Some READ\<rparr>
   \<and> getNoteById demoDb ''n1'' ''carol'' = Inl NoPermissionToAccess"
proof -
  have n: "findNote demoDb ''n1'' = Some demoNote"
    by (simp add: findNote_def demo_defs)
  have c: "\<not> (\<exists>s \<in> set (noteShareRepository demoDb). shareNoteId s = ''n1''
              \<and> sharedWithId s = Some ''carol'' \<and> isAccepted s \<and> \<not> isRevoked s)"
    by (simp add: demo_defs)
  have o: "ownerId demoNote = ''alice''" "ownerId demoNote \<noteq> ''bob''"
    "ownerId demoNote \<noteq> ''carol''"
    by (simp_all add: demoNote_def)
  have m: "bobShare \<in> set (noteShareRepository demoDb)" "permission bobShare = READ"
    "shareNoteId bobShare = ''n1''" "sharedWithId bobShare = Some ''bob''"
    "isAccepted bobShare" "\<not> isRevoked bobShare"
    by (simp_all add: demo_defs)
  have u: "\<forall>t \<in> set (noteShareRepository demoDb).
             shareNoteId t = ''n1'' \<and> sharedWithId t = Some ''bob''
             \<and> isAccepted t \<and> \<not> isRevoked t \<longrightarrow> permission t = permission bobShare"
    by (simp add: demo_defs)
  from getNoteById_access_decision [OF n, of "''alice''"] o(1)
  have ra: "getNoteById demoDb ''n1'' ''alice'' =
       Inr \<lparr>row = demoNote, loadedShares = [], attachedPermission = Some EDIT\<rparr>"
    by blast
  from getNoteById_access_decision [OF n, of "''bob''"] o(2) m u
  have "getNoteById demoDb ''n1'' ''bob'' =
       Inr \<lparr>row = demoNote, loadedShares = [],
            attachedPermission = Some (permission bobShare)\<rparr>"
    by blast
  then have rb: "getNoteById demoDb ''n1'' ''bob'' =
       Inr \<lparr>row = demoNote, loadedShares = [], attachedPermission = Some READ\<rparr>"
    by (simp add: m)
  from getNoteById_access_decision [OF n, of "''carol''"] o(3) c
  have rc: "getNoteById demoDb ''n1'' ''carol'' = Inl NoPermissionToAccess"
    by blast
  from n m(1) ra rb rc show ?thesis by simp
qed


section \<open>Updating a note\<close>

lemma hasEditPermission_iff:
  assumes "findNote d nid = Some n"
  shows "hasEditPermission d nid uid =
         (ownerId n = uid \<or>
          (\<exists>s. find (grantsAccess uid) (sharesOfNote d nid) = Some s \<and> permission s = EDIT))"
  using assms
  by (auto simp: hasEditPermission_def getNoteById_def split: option.splits)

lemma findNote_noteId: "findNote d nid = Some n \<Longrightarrow> noteId n = nid"
  by (auto simp: findNote_def find_Some_iff)

lemma find_updateRow:
  assumes "find (\<lambda>m. noteId m = nid) ns = Some n" and "noteId n' = nid"
  shows "find (\<lambda>m. noteId m = nid) (updateRow noteId ns n') = Some n'"
  using assms by (induction ns) (auto simp: updateRow_def)

text \<open>
  A patch whose content is a non-empty string different from the stored content:
  one revision with the old content at the old version is appended, the version
  grows by one, and then the patch is applied.
\<close>

lemma updateNote_changed_content:
  assumes n: "findNote d nid = Some n"
    and p: "hasEditPermission d nid uid"
    and c: "patchContent u = Some c" "c \<noteq> []" "c \<noteq> content n"
  shows "\<exists>ln d'. updateNote d rid nid uid u = Inr (ln, d')
           \<and> revisionRepository d' =
               revisionRepository d @
                 [\<lparr>revisionId = rid, revContent = content n, revVersion = version n,
                   revNoteId = nid, revUserId = uid\<rparr>]
           \<and> row ln = assign (n\<lparr>version := version n + 1\<rparr>) u
           \<and> version (row ln) = version n + 1
           \<and> content (row ln) = c
           \<and> findNote d' nid = Some (row ln)"
proof -
  from p have ok: "ownerId n = uid \<or>
      (\<exists>s. find (grantsAccess uid) (sharesOfNote d nid) = Some s \<and> permission s = EDIT)"
    by (simp add: hasEditPermission_iff [OF n])
  have id: "noteId (assign (n\<lparr>version := version n + 1\<rparr>) u) = nid"
    using findNote_noteId [OF n] by (simp add: assign_def)
  from n have f: "find (\<lambda>m. noteId m = nid) (noteRepository d) = Some n"
    by (simp add: findNote_def)
  show ?thesis
    using n ok c find_updateRow [OF f id]
    by (auto simp: updateNote_def truthy_def Let_def findNote_def assign_def
          incrementVersion_def insertRow_def)
qed

text \<open>A patch without content (title only, archive flag only): no revision, same version.\<close>

lemma updateNote_without_content:
  assumes n: "findNote d nid = Some n"
    and p: "hasEditPermission d nid uid"
    and c: "patchContent u = None"
  shows "\<exists>ln d'. updateNote d rid nid uid u = Inr (ln, d')
           \<and> revisionRepository d' = revisionRepository d
           \<and> row ln = assign n u
           \<and> version (row ln) = version n
           \<and> findNote d' nid = Some (row ln)"
proof -
  from p have ok: "ownerId n = uid \<or>
      (\<exists>s. find (grantsAccess uid) (sharesOfNote d nid) = Some s \<and> permission s = EDIT)"
    by (simp add: hasEditPermission_iff [OF n])
  have id: "noteId (assign n u) = nid"
    using findNote_noteId [OF n] by (simp add: assign_def)
  from n have f: "find (\<lambda>m. noteId m = nid) (noteRepository d) = Some n"
    by (simp add: findNote_def)
  show ?thesis
    using n ok c find_updateRow [OF f id]
    by (auto simp: updateNote_def truthy_def Let_def findNote_def assign_def)
qed

text \<open>
  Claim C2, at the input where the code departs from it. Alice owns the demo note,
  whose stored content is \<open>C1\<close> at version 1. Her patch carries the content \<open>""\<close>:
  present, and different from the stored content. The claim asks for one new revision
  holding \<open>C1\<close> at version 1 and for version 2. \<open>updateNote\<close> overwrites the content,
  leaves the ledger with the single revision it had and keeps version 1.
\<close>

theorem updateNote_empty_content_on_demo:
  "updateNote demoDb ''r2'' ''n1'' ''alice''
     \<lparr>patchTitle = None, patchContent = Some [], patchIsArchived = None\<rparr> =
   Inr (\<lparr>row = demoNote\<lparr>content := []\<rparr>,
         loadedShares = [bobShare, daveShare, carolShare],
         attachedPermission = Some EDIT\<rparr>,
        demoDb\<lparr>noteRepository := [demoNote\<lparr>content := []\<rparr>]\<rparr>)
   \<and> content demoNote = ''C1''
   \<and> version (demoNote\<lparr>content := []\<rparr>) = 1
   \<and> revisionRepository (demoDb\<lparr>noteRepository := [demoNote\<lparr>content := []\<rparr>]\<rparr>) =
       [firstRevision]"
  by (simp add: updateNote_def findNote_def sharesOfNote_def grantsAccess_def truthy_def
        assign_def updateRow_def Let_def demo_defs)

text \<open>
  Claim C9. For a stored note with non-empty content and a permitted editor, a patch
  whose content is the empty string succeeds, stores the empty content, writes no
  revision and leaves the version as it was: the revision step tests the truthiness
  of the patch content.
\<close>

theorem updateNote_empty_content_not_snapshotted:
  assumes n: "findNote d nid = Some n"
    and p: "hasEditPermission d nid uid"
    and c: "patchContent u = Some []"
    and s: "content n \<noteq> []"
  shows "\<exists>ln d'. updateNote d rid nid uid u = Inr (ln, d')
           \<and> findNote d' nid = Some (row ln)
           \<and> content (row ln) = []
           \<and> content (row ln) \<noteq> content n
           \<and> version (row ln) = version n
           \<and> revisionRepository d' = revisionRepository d"
proof -
  from p have ok: "ownerId n = uid \<or>
      (\<exists>s. find (grantsAccess uid) (sharesOfNote d nid) = Some s \<and> permission s = EDIT)"
    by (simp add: hasEditPermission_iff [OF n])
  have id: "noteId (assign n u) = nid"
    using findNote_noteId [OF n] by (simp add: assign_def)
  from n have f: "find (\<lambda>m. noteId m = nid) (noteRepository d) = Some n"
    by (simp add: findNote_def)
  show ?thesis
    using n ok c s find_updateRow [OF f id]
    by (auto simp: updateNote_def truthy_def Let_def findNote_def assign_def)
qed

theorem updateNote_empty_content_not_snapshotted_witness:
  "findNote demoDb ''n1'' = Some demoNote
   \<and> hasEditPermission demoDb ''n1'' ''dave''
   \<and> content demoNote \<noteq> []
   \<and> (\<exists>ln d'. updateNote demoDb ''r2'' ''n1'' ''dave''
                 \<lparr>patchTitle = Some ''T2'', patchContent = Some [],
                  patchIsArchived = None\<rparr> = Inr (ln, d')
         \<and> findNote d' ''n1'' = Some (row ln)
         \<and> content (row ln) = []
         \<and> content (row ln) \<noteq> content demoNote
         \<and> version (row ln) = version demoNote
         \<and> revisionRepository d' = revisionRepository demoDb)"
proof -
  have n: "findNote demoDb ''n1'' = Some demoNote"
    by (simp add: findNote_def demo_defs)
  have p: "hasEditPermission demoDb ''n1'' ''dave''"
    by (simp add: hasEditPermission_def getNoteById_def findNote_def sharesOfNote_def
          grantsAccess_def demo_defs)
  have s: "content demoNote \<noteq> []"
    by (simp add: demoNote_def)
  have c: "patchContent \<lparr>patchTitle = Some ''T2'', patchContent = Some [],
                         patchIsArchived = None\<rparr> = Some []"
    by simp
  from updateNote_empty_content_not_snapshotted [OF n p c s, of "''r2''"] n p s
  show ?thesis by simp
qed

section \<open>Restoring a revision\<close>

text \<open>
  The save of an entity that carries the stored shares of its note is the plain update
  of the note row, as in \<open>updateNote\<close>.
\<close>

lemma saveLoaded_stored_shares:
  assumes "loadedShares note = sharesOfNote d (noteId (row note))"
  shows "saveLoaded d note =
           Inr (d\<lparr>noteRepository := updateRow noteId (noteRepository d) (row note)\<rparr>)"
  using assms by (simp add: saveLoaded_def)

lemma saveLoaded_no_shares:
  assumes "sharesOfNote d (noteId (row note)) = []"
  shows "saveLoaded d note =
           Inr (d\<lparr>noteRepository := updateRow noteId (noteRepository d) (row note)\<rparr>)"
  using assms by (simp add: saveLoaded_def)

lemma saveLoaded_detached:
  assumes "loadedShares note = []" and "sharesOfNote d (noteId (row note)) \<noteq> []"
  shows "saveLoaded d note = Inl QueryFailed"
proof -
  from assms(2) obtain s where "s \<in> set (sharesOfNote d (noteId (row note)))"
    by (cases "sharesOfNote d (noteId (row note))") auto
  with assms(1) show ?thesis
    by (auto simp: saveLoaded_def)
qed

lemma sharesOfNote_revisionRepository:
  "sharesOfNote (d\<lparr>revisionRepository := rs\<rparr>) nid = sharesOfNote d nid"
  by (simp add: sharesOfNote_def)

text \<open>
  For the owner of a note that has no share rows, \<open>restoreRevision\<close> does what is
  asked of it: the content of the revision becomes the content of the note, the version
  grows by one, and one revision holding the content and version from before the
  restore is appended to the ledger, whose other rows stay as they are.
\<close>

lemma restoreRevision_owner:
  assumes n: "findNote d nid = Some n" and o: "ownerId n = uid"
    and r: "findRevision d rid nid = Some revision"
    and u: "sharesOfNote d nid = []"
  shows "\<exists>ln d'. restoreRevision d newRid nid rid uid = (Inr ln, d')
           \<and> row ln = n\<lparr>version := version n + 1, content := revContent revision\<rparr>
           \<and> findNote d' nid = Some (row ln)
           \<and> revisionRepository d' =
               revisionRepository d @
                 [\<lparr>revisionId = newRid, revContent = content n, revVersion = version n,
                   revNoteId = nid, revUserId = uid\<rparr>]"
proof -
  define restored where "restored =
    \<lparr>row = n\<lparr>version := version n + 1, content := revContent revision\<rparr>,
     loadedShares = [], attachedPermission = Some EDIT\<rparr>"
  define d1 where "d1 = d\<lparr>revisionRepository :=
      revisionRepository d @
        [\<lparr>revisionId = newRid, revContent = content n, revVersion = version n,
          revNoteId = nid, revUserId = uid\<rparr>]\<rparr>"
  have id: "noteId (row restored) = nid"
    using findNote_noteId [OF n] by (simp add: restored_def)
  from n have f: "find (\<lambda>m. noteId m = nid) (noteRepository d) = Some n"
    by (simp add: findNote_def)
  from u have "sharesOfNote d1 (noteId (row restored)) = []"
    by (simp add: id d1_def sharesOfNote_revisionRepository)
  from saveLoaded_no_shares [OF this]
  have sl: "saveLoaded d1 restored =
      Inr (d1\<lparr>noteRepository := updateRow noteId (noteRepository d1) (row restored)\<rparr>)" .
  from n o r have "restoreRevision d newRid nid rid uid =
      (case saveLoaded d1 restored of
         Inl e \<Rightarrow> (Inl e, d1)
       | Inr d2 \<Rightarrow> (Inr restored, d2))"
    by (simp add: restoreRevision_def getNoteById_def incrementVersion_def insertRow_def
          Let_def restored_def d1_def cong: sum.case_cong)
  with sl have res: "restoreRevision d newRid nid rid uid =
      (Inr restored, d1\<lparr>noteRepository := updateRow noteId (noteRepository d1) (row restored)\<rparr>)"
    by simp
  have "findNote (d1\<lparr>noteRepository := updateRow noteId (noteRepository d1) (row restored)\<rparr>)
          nid = Some (row restored)"
    using find_updateRow [OF f id] by (simp add: findNote_def d1_def)
  with res show ?thesis
    by (simp add: restored_def d1_def)
qed

text \<open>
  For the owner of a note that has share rows, the new revision is written and then
  the save of the note is rejected: the call throws, the note keeps its content and
  version, and the ledger has one revision more.
\<close>

lemma restoreRevision_owner_of_shared_note:
  assumes n: "findNote d nid = Some n" and o: "ownerId n = uid"
    and r: "findRevision d rid nid = Some revision"
    and u: "sharesOfNote d nid \<noteq> []"
  shows "restoreRevision d newRid nid rid uid =
           (Inl QueryFailed,
            d\<lparr>revisionRepository :=
                revisionRepository d @
                  [\<lparr>revisionId = newRid, revContent = content n, revVersion = version n,
                    revNoteId = nid, revUserId = uid\<rparr>]\<rparr>)"
proof -
  define restored where "restored =
    \<lparr>row = n\<lparr>version := version n + 1, content := revContent revision\<rparr>,
     loadedShares = [], attachedPermission = Some EDIT\<rparr>"
  define d1 where "d1 = d\<lparr>revisionRepository :=
      revisionRepository d @
        [\<lparr>revisionId = newRid, revContent = content n, revVersion = version n,
          revNoteId = nid, revUserId = uid\<rparr>]\<rparr>"
  have id: "noteId (row restored) = nid"
    using findNote_noteId [OF n] by (simp add: restored_def)
  have e: "loadedShares restored = []"
    by (simp add: restored_def)
  from u have "sharesOfNote d1 (noteId (row restored)) \<noteq> []"
    by (simp add: id d1_def sharesOfNote_revisionRepository)
  from saveLoaded_detached [OF e this]
  have sl: "saveLoaded d1 restored = Inl QueryFailed" .
  from n o r have "restoreRevision d newRid nid rid uid =
      (case saveLoaded d1 restored of
         Inl e \<Rightarrow> (Inl e, d1)
       | Inr d2 \<Rightarrow> (Inr restored, d2))"
    by (simp add: restoreRevision_def getNoteById_def incrementVersion_def insertRow_def
          Let_def restored_def d1_def cong: sum.case_cong)
  with sl show ?thesis
    by (simp add: d1_def)
qed

text \<open>
  Every other user is refused and nothing is written: \<open>getNoteById\<close> hands the note
  back with its share list emptied, so the search for the caller's edit share in
  \<open>restoreRevision\<close> finds nothing.
\<close>

lemma restoreRevision_non_owner:
  assumes "findNote d nid = Some n" and "ownerId n \<noteq> uid"
  shows "restoreRevision d newRid nid rid uid = (Inl NoPermissionToEdit, d)
       \<or> restoreRevision d newRid nid rid uid = (Inl NoPermissionToAccess, d)"
  using assms
  by (auto simp: restoreRevision_def getNoteById_def split: option.splits)

text \<open>
  Claim C5, at the input where the code departs from it. Dave holds an accepted,
  non-revoked edit share of the demo note, and revision \<open>r1\<close> of the note exists.
  The claim asks for the restore to go through; \<open>restoreRevision\<close> throws the
  edit-permission error and changes nothing.
\<close>

theorem restoreRevision_editor_refused_on_demo:
  "hasEditPermission demoDb ''n1'' ''dave''
   \<and> findRevision demoDb ''r1'' ''n1'' = Some firstRevision
   \<and> restoreRevision demoDb ''r2'' ''n1'' ''r1'' ''dave'' = (Inl NoPermissionToEdit, demoDb)"
  by (simp add: restoreRevision_def hasEditPermission_def getNoteById_def findNote_def
        sharesOfNote_def grantsAccess_def findRevision_def demo_defs)

section \<open>Deleting a note\<close>

text \<open>
  Claim C7. For a stored note: a caller who is not the owner gets a permission error,
  the database is left as it was and no statement of the cascade runs. For the owner
  the statements run in the order revisions, shares, note; the first one that the
  database rejects makes \<open>deleteNote\<close> throw, the later ones do not run, and the
  database holds the effect of the earlier ones only. When none is rejected, no
  revision and no share of the note and no note with its id are left.
\<close>

theorem deleteNote_cascade:
  assumes n: "findNote d nid = Some n"
  shows "(ownerId n \<noteq> uid \<longrightarrow>
            (\<exists>e. thrown (deleteNote fails d nid uid) = Some e \<and> isPermissionError e)
            \<and> dbAfter (deleteNote fails d nid uid) = d
            \<and> executed (deleteNote fails d nid uid) = [])
       \<and> (ownerId n = uid \<longrightarrow>
            (fails DeleteRevisions \<longrightarrow>
               deleteNote fails d nid uid =
                 \<lparr>thrown = Some FailedToDelete, dbAfter = d, executed = []\<rparr>)
          \<and> (\<not> fails DeleteRevisions \<and> fails DeleteShares \<longrightarrow>
               deleteNote fails d nid uid =
                 \<lparr>thrown = Some FailedToDelete, dbAfter = deleteRevisionsOf d nid,
                  executed = [DeleteRevisions]\<rparr>)
          \<and> (\<not> fails DeleteRevisions \<and> \<not> fails DeleteShares \<and> fails RemoveNote \<longrightarrow>
               deleteNote fails d nid uid =
                 \<lparr>thrown = Some FailedToDelete,
                  dbAfter = deleteSharesOf (deleteRevisionsOf d nid) nid,
                  executed = [DeleteRevisions, DeleteShares]\<rparr>)
          \<and> (\<not> fails DeleteRevisions \<and> \<not> fails DeleteShares \<and> \<not> fails RemoveNote \<longrightarrow>
               thrown (deleteNote fails d nid uid) = None
               \<and> executed (deleteNote fails d nid uid) =
                   [DeleteRevisions, DeleteShares, RemoveNote]
               \<and> revisionsOfNote (dbAfter (deleteNote fails d nid uid)) nid = []
               \<and> sharesOfNote (dbAfter (deleteNote fails d nid uid)) nid = []
               \<and> findNote (dbAfter (deleteNote fails d nid uid)) nid = None
               \<and> dbAfter (deleteNote fails d nid uid) =
                   removeNote (deleteSharesOf (deleteRevisionsOf d nid) nid) n))"
  using n findNote_noteId [OF n]
  by (auto simp: deleteNote_def getNoteById_def Let_def revisionsOfNote_def sharesOfNote_def
        deleteRevisionsOf_def deleteSharesOf_def removeNote_def findNote_def find_None_iff
        split: option.splits)

theorem deleteNote_cascade_witness:
  "findNote demoDb ''n1'' = Some demoNote
   \<and> deleteNote (\<lambda>s. False) demoDb ''n1'' ''bob'' =
       \<lparr>thrown = Some OnlyOwnerCanDelete, dbAfter = demoDb, executed = []\<rparr>
   \<and> thrown (deleteNote (\<lambda>s. False) demoDb ''n1'' ''carol'') = Some NoPermissionToAccess
   \<and> dbAfter (deleteNote (\<lambda>s. False) demoDb ''n1'' ''carol'') = demoDb
   \<and> deleteNote (\<lambda>s. s = DeleteRevisions) demoDb ''n1'' ''alice'' =
       \<lparr>thrown = Some FailedToDelete, dbAfter = demoDb, executed = []\<rparr>
   \<and> deleteNote (\<lambda>s. s = DeleteShares) demoDb ''n1'' ''alice'' =
       \<lparr>thrown = Some FailedToDelete, dbAfter = demoDb\<lparr>revisionRepository := []\<rparr>,
        executed = [DeleteRevisions]\<rparr>
   \<and> deleteNote (\<lambda>s. s = RemoveNote) demoDb ''n1'' ''alice'' =
       \<lparr>thrown = Some FailedToDelete,
        dbAfter = demoDb\<lparr>revisionRepository := [], noteShareRepository := []\<rparr>,
        executed = [DeleteRevisions, DeleteShares]\<rparr>
   \<and> deleteNote (\<lambda>s. False) demoDb ''n1'' ''alice'' =
       \<lparr>thrown = None,
        dbAfter = demoDb\<lparr>revisionRepository := [], noteShareRepository := [],
                        noteRepository := []\<rparr>,
        executed = [DeleteRevisions, DeleteShares, RemoveNote]\<rparr>"
proof -
  have n: "findNote demoDb ''n1'' = Some demoNote"
    by (simp add: findNote_def demo_defs)
  have o: "ownerId demoNote = ''alice''" "ownerId demoNote \<noteq> ''bob''"
    "ownerId demoNote \<noteq> ''carol''"
    by (simp_all add: demoNote_def)
  have b: "thrown (deleteNote (\<lambda>s. False) demoDb ''n1'' ''bob'') = Some OnlyOwnerCanDelete"
    by (simp add: deleteNote_def getNoteById_def findNote_def sharesOfNote_def
          grantsAccess_def demo_defs)
  have c: "thrown (deleteNote (\<lambda>s. False) demoDb ''n1'' ''carol'') =
             Some NoPermissionToAccess"
    by (simp add: deleteNote_def getNoteById_def findNote_def sharesOfNote_def
          grantsAccess_def demo_defs)
  have r: "deleteRevisionsOf demoDb ''n1'' = demoDb\<lparr>revisionRepository := []\<rparr>"
    by (simp add: deleteRevisionsOf_def demo_defs)
  have s: "deleteSharesOf (demoDb\<lparr>revisionRepository := []\<rparr>) ''n1'' =
             demoDb\<lparr>revisionRepository := [], noteShareRepository := []\<rparr>"
    by (simp add: deleteSharesOf_def demo_defs)
  have m: "removeNote (demoDb\<lparr>revisionRepository := [], noteShareRepository := []\<rparr>)
             demoNote =
           demoDb\<lparr>revisionRepository := [], noteShareRepository := [],
                  noteRepository := []\<rparr>"
    by (simp add: removeNote_def demo_defs)
  from deleteNote_cascade [OF n, of "''bob''" "\<lambda>s. False"]
       deleteNote_cascade [OF n, of "''carol''" "\<lambda>s. False"]
       deleteNote_cascade [OF n, of "''alice''" "\<lambda>s. s = DeleteRevisions"]
       deleteNote_cascade [OF n, of "''alice''" "\<lambda>s. s = DeleteShares"]
       deleteNote_cascade [OF n, of "''alice''" "\<lambda>s. s = RemoveNote"]
       deleteNote_cascade [OF n, of "''alice''" "\<lambda>s. False"]
       n o b c r s m
  show ?thesis
    by (simp add: deleteOutcome.equality)
qed

section \<open>Life cycle of a share\<close>

lemma evolves_refl: "evolves s s"
  by (simp add: evolves_def)

lemma evolves_trans: "evolves a b \<Longrightarrow> evolves b c \<Longrightarrow> evolves a c"
  by (auto simp: evolves_def)

lemma sharesEvolve_refl: "sharesEvolve d d"
  unfolding sharesEvolve_def using evolves_refl by blast

lemma sharesEvolve_trans: "sharesEvolve a b \<Longrightarrow> sharesEvolve b c \<Longrightarrow> sharesEvolve a c"
  unfolding sharesEvolve_def by (meson evolves_trans)

lemma map_key_updateRow:
  "map key (updateRow key rows r) = map key rows"
  by (induction rows) (auto simp: updateRow_def)

lemma updateRow_evolves:
  assumes "\<forall>s \<in> set rows. shareId s = shareId r \<longrightarrow> evolves s r"
  shows "\<forall>s \<in> set rows. \<exists>s' \<in> set (updateRow shareId rows r). evolves s s'"
proof
  fix s assume s: "s \<in> set rows"
  show "\<exists>s' \<in> set (updateRow shareId rows r). evolves s s'"
  proof (cases "shareId s = shareId r")
    case True
    with s have "r \<in> set (updateRow shareId rows r)"
      by (force simp: updateRow_def)
    moreover from assms s True have "evolves s r" by blast
    ultimately show ?thesis by blast
  next
    case False
    with s have "s \<in> set (updateRow shareId rows r)"
      by (force simp: updateRow_def)
    then show ?thesis using evolves_refl by blast
  qed
qed

lemma distinct_same_id:
  assumes "distinct (map shareId rows)" "s \<in> set rows" "t \<in> set rows" "shareId s = shareId t"
  shows "s = t"
  using assms by (meson distinct_map inj_onD)

lemma find_in_set: "find P xs = Some x \<Longrightarrow> x \<in> set xs \<and> P x"
  by (auto simp: find_Some_iff)

lemma handleRequest_step:
  assumes dist: "distinct (map shareId (noteShareRepository d))"
    and fresh: "freshShareIds svc d [r]"
  shows "sharesEvolve d (handleRequest svc d r)
       \<and> distinct (map shareId (noteShareRepository (handleRequest svc d r)))"
proof (cases r)
  case (ShareNote newShareId newToken uid shareData)
  show ?thesis
  proof (cases "shareNote svc d newShareId newToken uid shareData")
    case (Inl e)
    with ShareNote dist show ?thesis by (simp add: sharesEvolve_refl)
  next
    case (Inr res)
    then obtain share where d': "handleRequest svc d r =
        d\<lparr>noteShareRepository := noteShareRepository d @ [share]\<rparr>"
      and i: "shareId share = newShareId"
      using ShareNote
      by (auto simp: shareNote_def Let_def insertRow_def split: sum.splits if_splits)
    from fresh ShareNote have "newShareId \<notin> shareId ` set (noteShareRepository d)"
      by simp
    with dist d' i have "distinct (map shareId (noteShareRepository (handleRequest svc d r)))"
      by simp
    moreover have "sharesEvolve d (handleRequest svc d r)"
      unfolding sharesEvolve_def d' using evolves_refl by force
    ultimately show ?thesis by simp
  qed
next
  case (AcceptSharedNote token uid)
  show ?thesis
  proof (cases "acceptSharedNote svc d token uid")
    case (Inl e)
    with AcceptSharedNote dist show ?thesis by (simp add: sharesEvolve_refl)
  next
    case (Inr res)
    then obtain s where f: "findShareByToken d token = Some s"
      and na: "\<not> isRevoked s" "\<not> isAccepted s"
      and d': "handleRequest svc d r =
                 d\<lparr>noteShareRepository := updateRow shareId (noteShareRepository d)
                     (s\<lparr>sharedWithId := Some uid, isAccepted := True\<rparr>)\<rparr>"
      using AcceptSharedNote
      by (auto simp: acceptSharedNote_def Let_def split: option.splits if_splits)
    from f have mem: "s \<in> set (noteShareRepository d)"
      by (auto simp: findShareByToken_def dest: find_in_set)
    have "\<forall>t \<in> set (noteShareRepository d).
            shareId t = shareId (s\<lparr>sharedWithId := Some uid, isAccepted := True\<rparr>) \<longrightarrow>
            evolves t (s\<lparr>sharedWithId := Some uid, isAccepted := True\<rparr>)"
    proof (intro ballI impI)
      fix t assume t: "t \<in> set (noteShareRepository d)"
        and "shareId t = shareId (s\<lparr>sharedWithId := Some uid, isAccepted := True\<rparr>)"
      then have "t = s" using distinct_same_id [OF dist t mem] by simp
      with na show "evolves t (s\<lparr>sharedWithId := Some uid, isAccepted := True\<rparr>)"
        by (simp add: evolves_def)
    qed
    from updateRow_evolves [OF this] d' dist show ?thesis
      by (simp add: sharesEvolve_def map_key_updateRow)
  qed
next
  case (DeclineSharedNote token uid)
  show ?thesis
  proof (cases "declineSharedNote svc d token uid")
    case (Inl e)
    with DeclineSharedNote dist show ?thesis by (simp add: sharesEvolve_refl)
  next
    case (Inr res)
    then obtain s where f: "findShareByToken d token = Some s"
      and na: "\<not> isRevoked s" "\<not> isAccepted s"
      and d': "handleRequest svc d r =
                 d\<lparr>noteShareRepository := updateRow shareId (noteShareRepository d)
                     (s\<lparr>isRevoked := True, sharedWithId := Some uid\<rparr>)\<rparr>"
      using DeclineSharedNote
      by (auto simp: declineSharedNote_def Let_def split: option.splits if_splits)
    from f have mem: "s \<in> set (noteShareRepository d)"
      by (auto simp: findShareByToken_def dest: find_in_set)
    have "\<forall>t \<in> set (noteShareRepository d).
            shareId t = shareId (s\<lparr>isRevoked := True, sharedWithId := Some uid\<rparr>) \<longrightarrow>
            evolves t (s\<lparr>isRevoked := True, sharedWithId := Some uid\<rparr>)"
    proof (intro ballI impI)
      fix t assume t: "t \<in> set (noteShareRepository d)"
        and "shareId t = shareId (s\<lparr>isRevoked := True, sharedWithId := Some uid\<rparr>)"
      then have "t = s" using distinct_same_id [OF dist t mem] by simp
      with na show "evolves t (s\<lparr>isRevoked := True, sharedWithId := Some uid\<rparr>)"
        by (simp add: evolves_def)
    qed
    from updateRow_evolves [OF this] d' dist show ?thesis
      by (simp add: sharesEvolve_def map_key_updateRow)
  qed
next
  case (RevokeShare sid uid)
  show ?thesis
  proof (cases "revokeShare svc d sid uid")
    case (Inl e)
    with RevokeShare dist show ?thesis by (simp add: sharesEvolve_refl)
  next
    case (Inr res)
    then obtain s where f: "findShareById d sid = Some s"
      and d': "handleRequest svc d r =
                 d\<lparr>noteShareRepository := updateRow shareId (noteShareRepository d)
                     (s\<lparr>isRevoked := True\<rparr>)\<rparr>"
      using RevokeShare
      by (auto simp: revokeShare_def Let_def split: option.splits if_splits sum.splits)
    from f have mem: "s \<in> set (noteShareRepository d)"
      by (auto simp: findShareById_def dest: find_in_set)
    have "\<forall>t \<in> set (noteShareRepository d).
            shareId t = shareId (s\<lparr>isRevoked := True\<rparr>) \<longrightarrow> evolves t (s\<lparr>isRevoked := True\<rparr>)"
    proof (intro ballI impI)
      fix t assume t: "t \<in> set (noteShareRepository d)"
        and "shareId t = shareId (s\<lparr>isRevoked := True\<rparr>)"
      then have "t = s" using distinct_same_id [OF dist t mem] by simp
      then show "evolves t (s\<lparr>isRevoked := True\<rparr>)"
        by (simp add: evolves_def)
    qed
    from updateRow_evolves [OF this] d' dist show ?thesis
      by (simp add: sharesEvolve_def map_key_updateRow)
  qed
qed

lemma handleRequests_append:
  "handleRequests svc d (rs1 @ rs2) = handleRequests svc (handleRequests svc d rs1) rs2"
  by (induction rs1 arbitrary: d) simp_all

lemma freshShareIds_append:
  "freshShareIds svc d (rs1 @ rs2) =
   (freshShareIds svc d rs1 \<and> freshShareIds svc (handleRequests svc d rs1) rs2)"
  by (induction rs1 arbitrary: d) auto

lemma handleRequests_evolve:
  assumes "distinct (map shareId (noteShareRepository d))" and "freshShareIds svc d rs"
  shows "sharesEvolve d (handleRequests svc d rs)
       \<and> distinct (map shareId (noteShareRepository (handleRequests svc d rs)))"
  using assms
proof (induction rs arbitrary: d)
  case Nil
  then show ?case by (simp add: sharesEvolve_refl)
next
  case (Cons r rs)
  from Cons.prems have f1: "freshShareIds svc d [r]"
    and f2: "freshShareIds svc (handleRequest svc d r) rs"
    by simp_all
  from handleRequest_step [OF Cons.prems(1) f1]
  have s1: "sharesEvolve d (handleRequest svc d r)"
    and d1: "distinct (map shareId (noteShareRepository (handleRequest svc d r)))"
    by simp_all
  from Cons.IH [OF d1 f2] s1 show ?case
    by (auto intro: sharesEvolve_trans)
qed

text \<open>
  Claim C3. Take any sequence of \<open>shareNote\<close>, \<open>acceptSharedNote\<close>,
  \<open>declineSharedNote\<close> and \<open>revokeShare\<close> requests, from a share table with one row
  per id, where each new share gets an unused id. Compare the table at any point of
  the sequence with the table at any later point: every share of the earlier table is
  still there; if it was revoked it is revoked, if it was accepted it is accepted, and
  if it was revoked its \<open>isAccepted\<close> flag is the one it had, so no request sets
  Accepted on a share that is already revoked.
\<close>

theorem share_flags_monotonic:
  assumes dist: "distinct (map shareId (noteShareRepository d))"
    and fresh: "freshShareIds svc d (rs1 @ rs2)"
  shows "\<forall>s \<in> set (noteShareRepository (handleRequests svc d rs1)).
           \<exists>s' \<in> set (noteShareRepository (handleRequests svc d (rs1 @ rs2))).
             shareId s' = shareId s
             \<and> (isRevoked s \<longrightarrow> isRevoked s')
             \<and> (isAccepted s \<longrightarrow> isAccepted s')
             \<and> (isRevoked s \<longrightarrow> isAccepted s' = isAccepted s)"
proof -
  from fresh have f1: "freshShareIds svc d rs1"
    and f2: "freshShareIds svc (handleRequests svc d rs1) rs2"
    by (simp_all add: freshShareIds_append)
  from handleRequests_evolve [OF dist f1]
  have d1: "distinct (map shareId (noteShareRepository (handleRequests svc d rs1)))"
    by simp
  from handleRequests_evolve [OF d1 f2]
  have "sharesEvolve (handleRequests svc d rs1) (handleRequests svc d (rs1 @ rs2))"
    by (simp add: handleRequests_append)
  then show ?thesis
    by (simp add: sharesEvolve_def evolves_def)
qed

lemmas share_op_defs =
  acceptSharedNote_def revokeShare_def shareNote_def declineSharedNote_def
  findShareByToken_def findShareById_def findUser_def truthy_def updateRow_def insertRow_def
  getNoteById_def findNote_def sharesOfNote_def grantsAccess_def noteOfShare_def
  ownerOfShare_def Let_def

lemma demoRequests_run:
  "map (\<lambda>s. (shareId s, isAccepted s, isRevoked s))
     (noteShareRepository (handleRequests None demoDb (take 3 demoRequests))) =
     [(''s1'', True, False), (''s2'', True, False), (''s3'', True, True)]
   \<and> map (\<lambda>s. (shareId s, isAccepted s, isRevoked s))
     (noteShareRepository (handleRequests None demoDb demoRequests)) =
     [(''s1'', True, True), (''s2'', True, False), (''s3'', True, True),
      (''s4'', False, True)]"
  by (simp add: demoRequests_def share_op_defs demo_defs)

theorem share_flags_monotonic_witness:
  "distinct (map shareId (noteShareRepository demoDb))
   \<and> freshShareIds None demoDb (take 3 demoRequests @ drop 3 demoRequests)
   \<and> carolShare\<lparr>isAccepted := True, isRevoked := True\<rparr>
       \<in> set (noteShareRepository (handleRequests None demoDb (take 3 demoRequests)))
   \<and> bobShare \<in> set (noteShareRepository (handleRequests None demoDb (take 3 demoRequests)))
   \<and> (\<exists>s' \<in> set (noteShareRepository
                    (handleRequests None demoDb (take 3 demoRequests @ drop 3 demoRequests))).
         shareId s' = ''s3'' \<and> isRevoked s' \<and> isAccepted s')
   \<and> (\<exists>s' \<in> set (noteShareRepository
                    (handleRequests None demoDb (take 3 demoRequests @ drop 3 demoRequests))).
         shareId s' = ''s1'' \<and> isAccepted s')"
proof -
  have d: "distinct (map shareId (noteShareRepository demoDb))"
    by (simp add: demo_defs)
  have f: "freshShareIds None demoDb (take 3 demoRequests @ drop 3 demoRequests)"
    by (simp add: demoRequests_def share_op_defs demo_defs)
  have m: "noteShareRepository (handleRequests None demoDb (take 3 demoRequests)) =
             [bobShare, daveShare, carolShare\<lparr>isAccepted := True, isRevoked := True\<rparr>]"
    by (simp add: demoRequests_def share_op_defs demo_defs)
  have c: "carolShare\<lparr>isAccepted := True, isRevoked := True\<rparr>
       \<in> set (noteShareRepository (handleRequests None demoDb (take 3 demoRequests)))"
    "bobShare \<in> set (noteShareRepository (handleRequests None demoDb (take 3 demoRequests)))"
    by (simp_all add: m)
  have v: "shareId (carolShare\<lparr>isAccepted := True, isRevoked := True\<rparr>) = ''s3''"
    "isRevoked (carolShare\<lparr>isAccepted := True, isRevoked := True\<rparr>)"
    "isAccepted (carolShare\<lparr>isAccepted := True, isRevoked := True\<rparr>)"
    "shareId bobShare = ''s1''" "isAccepted bobShare"
    by (simp_all add: demo_defs)
  note inst = share_flags_monotonic [OF d f]
  from inst c(1) v(1,2,3)
  have r3: "\<exists>s' \<in> set (noteShareRepository
                    (handleRequests None demoDb (take 3 demoRequests @ drop 3 demoRequests))).
         shareId s' = ''s3'' \<and> isRevoked s' \<and> isAccepted s'"
    by fastforce
  from inst c(2) v(4,5)
  have r1: "\<exists>s' \<in> set (noteShareRepository
                    (handleRequests None demoDb (take 3 demoRequests @ drop 3 demoRequests))).
         shareId s' = ''s1'' \<and> isAccepted s'"
    by fastforce
  from d f c r3 r1 show ?thesis by blast
qed

section \<open>Accepting a share\<close>

lemma find_updateRow_same_key:
  assumes "find P rows = Some s" and "P r" and "key r = key s"
  shows "find P (updateRow key rows r) = Some r"
  using assms by (induction rows) (auto simp: updateRow_def split: if_splits)

text \<open>
  Claim C4 as stated fails on a share whose email is the empty string. Alice shares
  her note with the email \<open>""\<close>; the email of the share differs from Bob's, and
  Bob's \<open>acceptSharedNote\<close> with the token of the share succeeds.
\<close>

theorem acceptSharedNote_blank_email_counterexample:
  "shareNote None (demoDb\<lparr>noteShareRepository := []\<rparr>) ''s5'' ''t5'' ''alice''
       \<lparr>shareInputNoteId = ''n1'', shareInputEmail = [], shareInputPermission = None\<rparr> =
     Inr (blankShare, blankDb, [])
   \<and> findShareByToken blankDb ''t5'' = Some blankShare
   \<and> findUser blankDb ''bob'' = Some bob
   \<and> email blankShare = Some []
   \<and> userEmail bob = ''b@x.com''
   \<and> acceptSharedNote None blankDb ''t5'' ''bob'' =
       Inr (Some demoNote,
            blankDb\<lparr>noteShareRepository :=
                     [blankShare\<lparr>sharedWithId := Some ''bob'', isAccepted := True\<rparr>]\<rparr>,
            [])"
  by (simp add: blankDb_def blankShare_def share_op_defs demo_defs)

text \<open>
  Claim C4, amended. \<open>acceptSharedNote\<close> runs its checks in the order of the claim
  and the first check that fails decides the error. No share with the token: invalid
  token. A revoked share: the revoked error. An accepted share: always a failure, and
  the already-accepted error unless the share is also revoked. A share bound to another
  user: always a failure, and the not-intended error when the share is pending. A share
  with a non-empty email different from the caller's: always a failure, and the
  different-email error when the earlier checks pass. A share whose email is null or
  the empty string is not compared with the caller's email: the call succeeds for a
  pending share that is unbound or bound to the caller, for a caller who is a stored
  user, when the email of the share is null, empty or the caller's. It succeeds in no
  other case, and when it succeeds the stored share is the share found by the token
  with \<open>sharedWithId\<close> set to the caller and \<open>isAccepted\<close> set, and nothing else
  in the database has changed.
\<close>

theorem acceptSharedNote_guards:
  "(findShareByToken d token = None \<longrightarrow>
      acceptSharedNote svc d token uid = Inl InvalidShareToken)
   \<and> (\<forall>s. findShareByToken d token = Some s \<longrightarrow>
        (isRevoked s \<longrightarrow> acceptSharedNote svc d token uid = Inl ShareRevoked)
      \<and> (isAccepted s \<longrightarrow> isl (acceptSharedNote svc d token uid))
      \<and> (isAccepted s \<and> \<not> isRevoked s \<longrightarrow>
            acceptSharedNote svc d token uid = Inl ShareAlreadyAccepted)
      \<and> (\<forall>w. sharedWithId s = Some w \<and> w \<noteq> [] \<and> w \<noteq> uid \<longrightarrow>
            isl (acceptSharedNote svc d token uid)
            \<and> (\<not> isRevoked s \<and> \<not> isAccepted s \<longrightarrow>
                 acceptSharedNote svc d token uid = Inl ShareNotIntendedForYou))
      \<and> (findUser d uid = None \<longrightarrow> isl (acceptSharedNote svc d token uid))
      \<and> (\<forall>e u. email s = Some e \<and> e \<noteq> [] \<and> findUser d uid = Some u \<and> e \<noteq> userEmail u \<longrightarrow>
            isl (acceptSharedNote svc d token uid)
            \<and> (\<not> isRevoked s \<and> \<not> isAccepted s
                 \<and> (sharedWithId s = None \<or> sharedWithId s = Some []
                      \<or> sharedWithId s = Some uid) \<longrightarrow>
                 acceptSharedNote svc d token uid = Inl ShareDifferentEmail))
      \<and> (\<forall>u. \<not> isRevoked s \<and> \<not> isAccepted s
              \<and> (sharedWithId s = None \<or> sharedWithId s = Some []
                   \<or> sharedWithId s = Some uid)
              \<and> findUser d uid = Some u
              \<and> (email s = None \<or> email s = Some [] \<or> email s = Some (userEmail u)) \<longrightarrow>
            (\<exists>es. acceptSharedNote svc d token uid =
               Inr (noteOfShare d s,
                    d\<lparr>noteShareRepository :=
                        updateRow shareId (noteShareRepository d)
                          (s\<lparr>sharedWithId := Some uid, isAccepted := True\<rparr>)\<rparr>,
                    es))))
   \<and> (\<forall>n d' es. acceptSharedNote svc d token uid = Inr (n, d', es) \<longrightarrow>
        (\<exists>s u. findShareByToken d token = Some s \<and> \<not> isRevoked s \<and> \<not> isAccepted s
           \<and> (sharedWithId s = None \<or> sharedWithId s = Some []
                \<or> sharedWithId s = Some uid)
           \<and> findUser d uid = Some u
           \<and> (email s = None \<or> email s = Some [] \<or> email s = Some (userEmail u))
           \<and> d' = d\<lparr>noteShareRepository :=
                      updateRow shareId (noteShareRepository d)
                        (s\<lparr>sharedWithId := Some uid, isAccepted := True\<rparr>)\<rparr>
           \<and> findShareByToken d' token =
               Some (s\<lparr>sharedWithId := Some uid, isAccepted := True\<rparr>)))"
proof -
  have stored: "findShareByToken
          (d\<lparr>noteShareRepository :=
               updateRow shareId (noteShareRepository d)
                 (s\<lparr>sharedWithId := Some uid, isAccepted := True\<rparr>)\<rparr>) token =
        Some (s\<lparr>sharedWithId := Some uid, isAccepted := True\<rparr>)"
    if "findShareByToken d token = Some s" for s
  proof -
    from that have t: "shareToken s = Some token"
      by (auto simp: findShareByToken_def dest: find_in_set)
    from that have "find (\<lambda>x. shareToken x = Some token) (noteShareRepository d) = Some s"
      by (simp add: findShareByToken_def)
    from find_updateRow_same_key [OF this, of "s\<lparr>sharedWithId := Some uid, isAccepted := True\<rparr>"
        shareId] t
    show ?thesis by (simp add: findShareByToken_def)
  qed
  show ?thesis
    using stored
    by (auto simp: acceptSharedNote_def truthy_def Let_def split: option.splits)
qed

theorem acceptSharedNote_guards_witness:
  "findShareByToken registryDb ''nope'' = None
   \<and> acceptSharedNote None registryDb ''nope'' ''carol'' = Inl InvalidShareToken
   \<and> findShareByToken registryDb ''t6'' = Some revokedShare
   \<and> isRevoked revokedShare \<and> isAccepted revokedShare
   \<and> acceptSharedNote None registryDb ''t6'' ''dave'' = Inl ShareRevoked
   \<and> findShareByToken registryDb ''t1'' = Some bobShare
   \<and> isAccepted bobShare \<and> \<not> isRevoked bobShare
   \<and> acceptSharedNote None registryDb ''t1'' ''bob'' = Inl ShareAlreadyAccepted
   \<and> findShareByToken registryDb ''t3'' = Some carolShare
   \<and> acceptSharedNote None registryDb ''t3'' ''bob'' = Inl ShareNotIntendedForYou
   \<and> findShareByToken registryDb ''t7'' = Some strangerShare
   \<and> acceptSharedNote None registryDb ''t7'' ''bob'' = Inl ShareDifferentEmail
   \<and> (\<exists>es. acceptSharedNote None registryDb ''t3'' ''carol'' =
         Inr (Some demoNote,
              registryDb\<lparr>noteShareRepository :=
                 [carolShare\<lparr>sharedWithId := Some ''carol'', isAccepted := True\<rparr>,
                  bobShare, revokedShare, strangerShare]\<rparr>,
              es))
   \<and> findShareByToken blankDb ''t5'' = Some blankShare
   \<and> email blankShare = Some []
   \<and> (\<exists>es. acceptSharedNote None blankDb ''t5'' ''bob'' =
         Inr (Some demoNote,
              blankDb\<lparr>noteShareRepository :=
                 [blankShare\<lparr>sharedWithId := Some ''bob'', isAccepted := True\<rparr>]\<rparr>,
              es))"
proof -
  have f: "findShareByToken registryDb ''nope'' = None"
    "findShareByToken registryDb ''t6'' = Some revokedShare"
    "findShareByToken registryDb ''t1'' = Some bobShare"
    "findShareByToken registryDb ''t3'' = Some carolShare"
    "findShareByToken registryDb ''t7'' = Some strangerShare"
    "findShareByToken blankDb ''t5'' = Some blankShare"
    by (simp_all add: findShareByToken_def registryDb_def blankDb_def revokedShare_def
          strangerShare_def blankShare_def demo_defs)
  have u: "findUser registryDb ''bob'' = Some bob" "findUser registryDb ''carol'' = Some carol"
    "findUser blankDb ''bob'' = Some bob"
    by (simp_all add: findUser_def registryDb_def blankDb_def demo_defs)
  have s: "isRevoked revokedShare" "isAccepted revokedShare"
    "isAccepted bobShare" "\<not> isRevoked bobShare"
    "\<not> isRevoked carolShare" "\<not> isAccepted carolShare"
    "sharedWithId carolShare = Some ''carol''" "email carolShare = Some (userEmail carol)"
    "\<not> isRevoked strangerShare" "\<not> isAccepted strangerShare"
    "sharedWithId strangerShare = None" "email strangerShare = Some ''z@x.com''"
    "userEmail bob = ''b@x.com''"
    by (simp_all add: revokedShare_def strangerShare_def demo_defs)
  have k: "\<not> isRevoked blankShare" "\<not> isAccepted blankShare"
    "sharedWithId blankShare = None" "email blankShare = Some []"
    by (simp_all add: blankShare_def)
  have n: "noteOfShare registryDb carolShare = Some demoNote"
    "noteOfShare blankDb blankShare = Some demoNote"
    by (simp_all add: noteOfShare_def findNote_def registryDb_def blankDb_def blankShare_def
          demo_defs)
  have r: "updateRow shareId (noteShareRepository registryDb)
             (carolShare\<lparr>sharedWithId := Some ''carol'', isAccepted := True\<rparr>) =
           [carolShare\<lparr>sharedWithId := Some ''carol'', isAccepted := True\<rparr>,
            bobShare, revokedShare, strangerShare]"
    "updateRow shareId (noteShareRepository blankDb)
             (blankShare\<lparr>sharedWithId := Some ''bob'', isAccepted := True\<rparr>) =
           [blankShare\<lparr>sharedWithId := Some ''bob'', isAccepted := True\<rparr>]"
    by (simp_all add: updateRow_def registryDb_def blankDb_def revokedShare_def
          strangerShare_def blankShare_def demo_defs)
  from acceptSharedNote_guards [of registryDb "''nope''" None "''carol''"] f(1)
  have r1: "acceptSharedNote None registryDb ''nope'' ''carol'' = Inl InvalidShareToken"
    by blast
  from acceptSharedNote_guards [of registryDb "''t6''" None "''dave''"] f(2) s(1)
  have r2: "acceptSharedNote None registryDb ''t6'' ''dave'' = Inl ShareRevoked"
    by blast
  from acceptSharedNote_guards [of registryDb "''t1''" None "''bob''"] f(3) s(3,4)
  have r3: "acceptSharedNote None registryDb ''t1'' ''bob'' = Inl ShareAlreadyAccepted"
    by blast
  have w: "''carol'' \<noteq> []" "''carol'' \<noteq> ''bob''" "''z@x.com'' \<noteq> []"
    "''z@x.com'' \<noteq> userEmail bob"
    by (simp_all add: bob_def)
  from acceptSharedNote_guards [of registryDb "''t3''" None "''bob''"] f(4) s(5,6,7) w(1,2)
  have r4: "acceptSharedNote None registryDb ''t3'' ''bob'' = Inl ShareNotIntendedForYou"
    by blast
  from acceptSharedNote_guards [of registryDb "''t7''" None "''bob''"] f(5) s(9,10,11,12)
       u(1) w(3,4)
  have r5: "acceptSharedNote None registryDb ''t7'' ''bob'' = Inl ShareDifferentEmail"
    by blast
  from acceptSharedNote_guards [of registryDb "''t3''" None "''carol''"] f(4) s(5,6,7,8) u(2)
  have "\<exists>es. acceptSharedNote None registryDb ''t3'' ''carol'' =
               Inr (noteOfShare registryDb carolShare,
                    registryDb\<lparr>noteShareRepository :=
                        updateRow shareId (noteShareRepository registryDb)
                          (carolShare\<lparr>sharedWithId := Some ''carol'', isAccepted := True\<rparr>)\<rparr>,
                    es)"
    by blast
  then have r6: "\<exists>es. acceptSharedNote None registryDb ''t3'' ''carol'' =
         Inr (Some demoNote,
              registryDb\<lparr>noteShareRepository :=
                 [carolShare\<lparr>sharedWithId := Some ''carol'', isAccepted := True\<rparr>,
                  bobShare, revokedShare, strangerShare]\<rparr>,
              es)"
    by (simp add: n r)
  from acceptSharedNote_guards [of blankDb "''t5''" None "''bob''"] f(6) k u(3)
  have "\<exists>es. acceptSharedNote None blankDb ''t5'' ''bob'' =
               Inr (noteOfShare blankDb blankShare,
                    blankDb\<lparr>noteShareRepository :=
                        updateRow shareId (noteShareRepository blankDb)
                          (blankShare\<lparr>sharedWithId := Some ''bob'', isAccepted := True\<rparr>)\<rparr>,
                    es)"
    by blast
  then have r7: "\<exists>es. acceptSharedNote None blankDb ''t5'' ''bob'' =
         Inr (Some demoNote,
              blankDb\<lparr>noteShareRepository :=
                 [blankShare\<lparr>sharedWithId := Some ''bob'', isAccepted := True\<rparr>]\<rparr>,
              es)"
    by (simp add: n r)
  from f s(1,2,3,4) k(4) r1 r2 r3 r4 r5 r6 r7 show ?thesis
    by simp
qed

section \<open>The revision ledger\<close>

lemma find_append_None:
  "find P xs = None \<Longrightarrow> find P (xs @ ys) = find P ys"
  by (induction xs) (auto split: if_splits)

lemmas note_op_defs =
  createNote_def updateNote_def getNoteById_def findNote_def findUser_def
  findRevision_def sharesOfNote_def grantsAccess_def truthy_def assign_def incrementVersion_def
  insertRow_def updateRow_def Let_def

text \<open>
  Claim C6 as stated fails right after creation: \<open>createNote\<close> writes the initial
  content as a revision at version 1, so the ledger of the new note holds one revision,
  not none.
\<close>

theorem createNote_writes_initial_revision_counterexample:
  "createNote aliceOnlyDb ''n1'' ''r1'' ''alice'' \<lparr>inputTitle = ''T'', inputContent = ''C1''\<rparr> =
     Inr (demoNote, createdDb)
   \<and> version demoNote = 1
   \<and> revisionsOfNote createdDb ''n1'' = [firstRevision]
   \<and> length (revisionsOfNote createdDb ''n1'') \<noteq> 0"
  by (simp add: createNote_def findUser_def insertRow_def revisionsOfNote_def Let_def
        aliceOnlyDb_def createdDb_def emptyDb_def demo_defs)

text \<open>
  Claim C6, amended. For a user \<open>uid\<close> of any database and the id of a new note
  (an id that no stored note has and no stored revision refers to): \<open>createNote\<close> with
  title \<open>T\<close> and content \<open>C1\<close> gives a note at version 1 whose ledger holds exactly
  one revision, \<open>C1\<close> at version 1; the update of the content to \<open>C2\<close> by the same
  user then gives version 2 and a ledger of exactly two revisions, both \<open>C1\<close> at
  version 1. So in this scenario the ledger of the note at version \<open>V\<close> holds \<open>V\<close>
  revisions, and version 1 is in it from the start.
\<close>

theorem ledger_after_create_and_update:
  assumes user: "findUser d uid = Some user"
    and fresh: "nid \<notin> set (map noteId (noteRepository d))"
    and unused: "revisionsOfNote d nid = []"
  shows "\<exists>n d1. createNote d nid r1 uid \<lparr>inputTitle = ''T'', inputContent = ''C1''\<rparr> =
                   Inr (n, d1)
           \<and> version n = 1
           \<and> content n = ''C1''
           \<and> findNote d1 nid = Some n
           \<and> revisionsOfNote d1 nid =
               [\<lparr>revisionId = r1, revContent = ''C1'', revVersion = 1, revNoteId = nid,
                 revUserId = uid\<rparr>]
           \<and> (\<exists>ln d2. updateNote d1 r2 nid uid
                          \<lparr>patchTitle = None, patchContent = Some ''C2'',
                           patchIsArchived = None\<rparr> = Inr (ln, d2)
                 \<and> version (row ln) = 2
                 \<and> content (row ln) = ''C2''
                 \<and> findNote d2 nid = Some (row ln)
                 \<and> revisionsOfNote d2 nid =
                     [\<lparr>revisionId = r1, revContent = ''C1'', revVersion = 1,
                       revNoteId = nid, revUserId = uid\<rparr>,
                      \<lparr>revisionId = r2, revContent = ''C1'', revVersion = 1,
                       revNoteId = nid, revUserId = uid\<rparr>])"
proof -
  define n where "n = \<lparr>noteId = nid, title = ''T'', content = ''C1'', isArchived = False,
                       ownerId = uid, version = 1\<rparr>"
  define rv where "rv = \<lparr>revisionId = r1, revContent = ''C1'', revVersion = 1,
                         revNoteId = nid, revUserId = uid\<rparr>"
  define d1 where "d1 = d\<lparr>noteRepository := noteRepository d @ [n],
                           revisionRepository := revisionRepository d @ [rv]\<rparr>"
  define u where "u = \<lparr>patchTitle = None, patchContent = Some ''C2'',
                       patchIsArchived = None\<rparr>"
  have c: "createNote d nid r1 uid \<lparr>inputTitle = ''T'', inputContent = ''C1''\<rparr> = Inr (n, d1)"
    using user by (simp add: createNote_def Let_def insertRow_def n_def rv_def d1_def)
  from unused have l1: "revisionsOfNote d1 nid = [rv]"
    by (simp add: revisionsOfNote_def d1_def rv_def)
  from fresh have "find (\<lambda>m. noteId m = nid) (noteRepository d) = None"
    by (auto simp: find_None_iff)
  then have f1: "findNote d1 nid = Some n"
    by (simp add: findNote_def d1_def find_append_None n_def)
  have p: "hasEditPermission d1 nid uid"
    by (simp add: hasEditPermission_iff [OF f1] n_def)
  have pc: "patchContent u = Some ''C2''" "''C2'' \<noteq> []" "''C2'' \<noteq> content n"
    by (simp_all add: u_def n_def)
  from updateNote_changed_content [OF f1 p pc, of r2]
  obtain ln d2 where r: "updateNote d1 r2 nid uid u = Inr (ln, d2)"
    and rr: "revisionRepository d2 = revisionRepository d1 @
               [\<lparr>revisionId = r2, revContent = content n, revVersion = version n,
                 revNoteId = nid, revUserId = uid\<rparr>]"
    and v: "version (row ln) = version n + 1"
    and ct: "content (row ln) = ''C2''"
    and f2: "findNote d2 nid = Some (row ln)"
    by blast
  from rr l1 have l2: "revisionsOfNote d2 nid =
      [rv, \<lparr>revisionId = r2, revContent = ''C1'', revVersion = 1,
             revNoteId = nid, revUserId = uid\<rparr>]"
    by (simp add: revisionsOfNote_def n_def)
  from v have v2: "version (row ln) = 2"
    by (simp add: n_def)
  have "createNote d nid r1 uid \<lparr>inputTitle = ''T'', inputContent = ''C1''\<rparr> = Inr (n, d1)
           \<and> version n = 1
           \<and> content n = ''C1''
           \<and> findNote d1 nid = Some n
           \<and> revisionsOfNote d1 nid = [rv]
           \<and> (\<exists>ln d2. updateNote d1 r2 nid uid u = Inr (ln, d2)
                 \<and> version (row ln) = 2
                 \<and> content (row ln) = ''C2''
                 \<and> findNote d2 nid = Some (row ln)
                 \<and> revisionsOfNote d2 nid =
                     [rv, \<lparr>revisionId = r2, revContent = ''C1'', revVersion = 1,
                            revNoteId = nid, revUserId = uid\<rparr>])"
    using c l1 f1 r v2 ct f2 l2 by (auto simp: n_def)
  then show ?thesis
    unfolding rv_def u_def by blast
qed

theorem ledger_after_create_and_update_witness:
  "findUser aliceOnlyDb ''alice'' = Some alice
   \<and> ''n1'' \<notin> set (map noteId (noteRepository aliceOnlyDb))
   \<and> revisionsOfNote aliceOnlyDb ''n1'' = []
   \<and> (\<exists>n d1. createNote aliceOnlyDb ''n1'' ''r1'' ''alice''
                 \<lparr>inputTitle = ''T'', inputContent = ''C1''\<rparr> = Inr (n, d1)
         \<and> version n = 1
         \<and> length (revisionsOfNote d1 ''n1'') = 1
         \<and> (\<exists>ln d2. updateNote d1 ''r2'' ''n1'' ''alice''
                 \<lparr>patchTitle = None, patchContent = Some ''C2'', patchIsArchived = None\<rparr> =
                 Inr (ln, d2)
               \<and> version (row ln) = 2
               \<and> content (row ln) = ''C2''
               \<and> length (revisionsOfNote d2 ''n1'') = 2
               \<and> map revContent (revisionsOfNote d2 ''n1'') = [''C1'', ''C1'']
               \<and> map revVersion (revisionsOfNote d2 ''n1'') = [1, 1]))"
proof -
  have u: "findUser aliceOnlyDb ''alice'' = Some alice"
    by (simp add: findUser_def aliceOnlyDb_def emptyDb_def alice_def)
  have f: "''n1'' \<notin> set (map noteId (noteRepository aliceOnlyDb))"
    by (simp add: aliceOnlyDb_def emptyDb_def)
  have e: "revisionsOfNote aliceOnlyDb ''n1'' = []"
    by (simp add: revisionsOfNote_def aliceOnlyDb_def emptyDb_def)
  from ledger_after_create_and_update [OF u f e, of "''r1''" "''r2''"]
  obtain n d1 ln d2 where
    c: "createNote aliceOnlyDb ''n1'' ''r1'' ''alice''
          \<lparr>inputTitle = ''T'', inputContent = ''C1''\<rparr> = Inr (n, d1)"
      "version n = 1"
    and l1: "revisionsOfNote d1 ''n1'' =
               [\<lparr>revisionId = ''r1'', revContent = ''C1'', revVersion = 1,
                 revNoteId = ''n1'', revUserId = ''alice''\<rparr>]"
    and r: "updateNote d1 ''r2'' ''n1'' ''alice''
        \<lparr>patchTitle = None, patchContent = Some ''C2'', patchIsArchived = None\<rparr> =
        Inr (ln, d2)"
      "version (row ln) = 2" "content (row ln) = ''C2''"
    and l2: "revisionsOfNote d2 ''n1'' =
               [\<lparr>revisionId = ''r1'', revContent = ''C1'', revVersion = 1,
                 revNoteId = ''n1'', revUserId = ''alice''\<rparr>,
                \<lparr>revisionId = ''r2'', revContent = ''C1'', revVersion = 1,
                 revNoteId = ''n1'', revUserId = ''alice''\<rparr>]"
    by blast
  from l1 have k1: "length (revisionsOfNote d1 ''n1'') = 1" by simp
  from l2 have k2: "length (revisionsOfNote d2 ''n1'') = 2"
    "map revContent (revisionsOfNote d2 ''n1'') = [''C1'', ''C1'']"
    "map revVersion (revisionsOfNote d2 ''n1'') = [1, 1]"
    by simp_all
  have inner: "\<exists>ln d2. updateNote d1 ''r2'' ''n1'' ''alice''
                 \<lparr>patchTitle = None, patchContent = Some ''C2'', patchIsArchived = None\<rparr> =
                 Inr (ln, d2)
               \<and> version (row ln) = 2
               \<and> content (row ln) = ''C2''
               \<and> length (revisionsOfNote d2 ''n1'') = 2
               \<and> map revContent (revisionsOfNote d2 ''n1'') = [''C1'', ''C1'']
               \<and> map revVersion (revisionsOfNote d2 ''n1'') = [1, 1]"
    apply (rule exI [of _ ln])
    apply (rule exI [of _ d2])
    using r k2 by simp
  have "\<exists>n d1. createNote aliceOnlyDb ''n1'' ''r1'' ''alice''
                 \<lparr>inputTitle = ''T'', inputContent = ''C1''\<rparr> = Inr (n, d1)
         \<and> version n = 1
         \<and> length (revisionsOfNote d1 ''n1'') = 1
         \<and> (\<exists>ln d2. updateNote d1 ''r2'' ''n1'' ''alice''
                 \<lparr>patchTitle = None, patchContent = Some ''C2'', patchIsArchived = None\<rparr> =
                 Inr (ln, d2)
               \<and> version (row ln) = 2
               \<and> content (row ln) = ''C2''
               \<and> length (revisionsOfNote d2 ''n1'') = 2
               \<and> map revContent (revisionsOfNote d2 ''n1'') = [''C1'', ''C1'']
               \<and> map revVersion (revisionsOfNote d2 ''n1'') = [1, 1])"
    apply (rule exI [of _ n])
    apply (rule exI [of _ d1])
    using c k1 inner by simp
  with u f e show ?thesis by blast
qed

section \<open>Relaying content changes and share updates\<close>

lemmas socket_defs = daveSocket_def bobSocket_def eveSocket_def demoServer_def
  blankTitleChange_def titledChange_def

text \<open>
  Claim C8 as stated fails on a delta whose title is the empty string: Dave is in the
  room, the delta supplies a title, the delta is broadcast, and the database is left as
  it was, although \<open>updateNote\<close> with the same content and title succeeds and
  changes it.
\<close>

theorem onContentChange_blank_title_counterexample:
  "''note:n1'' \<in> currentRooms daveSocket
   \<and> changeTitle blankTitleChange = Some []
   \<and> onContentChange demoDb ''r2'' 7 daveSocket blankTitleChange =
       ([(ToRoomExcept ''note:n1'' ''k1'',
          ContentUpdateEvent \<lparr>updNoteId = ''n1'', updContent = ''C2'', updTitle = Some [],
                              updCursorPosition = None, updUserId = ''dave'',
                              updTimestamp = 7\<rparr>)],
        demoDb)
   \<and> updateNote demoDb ''r2'' ''n1'' ''dave''
         \<lparr>patchTitle = Some [], patchContent = Some ''C2'', patchIsArchived = None\<rparr> =
       Inr (\<lparr>row = demoNote\<lparr>title := [], content := ''C2'', version := 2\<rparr>,
             loadedShares = [bobShare, daveShare, carolShare],
             attachedPermission = Some EDIT\<rparr>,
            demoDb\<lparr>revisionRepository :=
                     [firstRevision,
                      \<lparr>revisionId = ''r2'', revContent = ''C1'', revVersion = 1,
                       revNoteId = ''n1'', revUserId = ''dave''\<rparr>],
                   noteRepository :=
                     [demoNote\<lparr>title := [], content := ''C2'', version := 2\<rparr>]\<rparr>)
   \<and> noteRepository demoDb \<noteq> [demoNote\<lparr>title := [], content := ''C2'', version := 2\<rparr>]"
  by (simp add: onContentChange_def note_op_defs socket_defs demo_defs)

lemma set_delivered:
  "set (delivered srv es) =
     {(socketId s, e) | s e t. (t, e) \<in> set es \<and> s \<in> set (recipients srv t)}"
  by (auto simp: delivered_def)

text \<open>
  Claim C8, amended. For an authenticated socket \<open>c\<close> and a content change for a
  note: when the room of the note is not among the socket's \<open>currentRooms\<close> the
  handler emits nothing and leaves the database as it was. When it is, every other
  socket that has joined the room receives the \<open>content-update\<close> event with the
  delta, the user id of \<open>c\<close> and the server time; no such event reaches \<open>c\<close> or
  a socket outside the room; and the database afterwards is the one that
  \<open>updateNote\<close> with the content and title of the delta leaves (unchanged when
  \<open>updateNote\<close> throws) exactly when the title of the delta is a non-empty string,
  and the old database otherwise.
\<close>

theorem onContentChange_relay:
  assumes auth: "socketUserId c = Some uid" "uid \<noteq> []"
  shows "(''note:'' @ changeNoteId ch \<notin> currentRooms c \<longrightarrow>
            onContentChange d rid now c ch = ([], d))
       \<and> (''note:'' @ changeNoteId ch \<in> currentRooms c \<longrightarrow>
            (\<forall>r \<in> set (io srv).
               ''note:'' @ changeNoteId ch \<in> joinedRooms r \<and> socketId r \<noteq> socketId c \<longrightarrow>
               (socketId r,
                ContentUpdateEvent
                  \<lparr>updNoteId = changeNoteId ch, updContent = changeContent ch,
                   updTitle = changeTitle ch, updCursorPosition = changeCursorPosition ch,
                   updUserId = uid, updTimestamp = now\<rparr>)
                 \<in> set (delivered srv (fst (onContentChange d rid now c ch))))
          \<and> (\<forall>u. (socketId c, ContentUpdateEvent u)
                 \<notin> set (delivered srv (fst (onContentChange d rid now c ch))))
          \<and> (\<forall>k u. (k, ContentUpdateEvent u)
                     \<in> set (delivered srv (fst (onContentChange d rid now c ch))) \<longrightarrow>
                   (\<exists>r \<in> set (io srv). socketId r = k
                      \<and> ''note:'' @ changeNoteId ch \<in> joinedRooms r))
          \<and> (truthy (changeTitle ch) \<longrightarrow>
                snd (onContentChange d rid now c ch) =
                  (case updateNote d rid (changeNoteId ch) uid
                          \<lparr>patchTitle = changeTitle ch,
                           patchContent = Some (changeContent ch),
                           patchIsArchived = None\<rparr> of
                     Inl e \<Rightarrow> d
                   | Inr (saved, d') \<Rightarrow> d'))
          \<and> (\<not> truthy (changeTitle ch) \<longrightarrow> snd (onContentChange d rid now c ch) = d))"
  using auth
  by (auto simp: onContentChange_def Let_def set_delivered split: sum.splits)

theorem onContentChange_relay_witness:
  "socketUserId daveSocket = Some ''dave'' \<and> ''dave'' \<noteq> []
   \<and> socketUserId eveSocket = Some ''eve'' \<and> ''eve'' \<noteq> []
   \<and> ''note:'' @ changeNoteId titledChange \<notin> currentRooms eveSocket
   \<and> onContentChange demoDb ''r2'' 7 eveSocket titledChange = ([], demoDb)
   \<and> ''note:'' @ changeNoteId titledChange \<in> currentRooms daveSocket
   \<and> bobSocket \<in> set (io demoServer)
   \<and> ''note:'' @ changeNoteId titledChange \<in> joinedRooms bobSocket
   \<and> socketId bobSocket \<noteq> socketId daveSocket
   \<and> (''k2'',
       ContentUpdateEvent
         \<lparr>updNoteId = ''n1'', updContent = ''C2'', updTitle = Some ''T2'',
          updCursorPosition = None, updUserId = ''dave'', updTimestamp = 7\<rparr>)
        \<in> set (delivered demoServer
                 (fst (onContentChange demoDb ''r2'' 7 daveSocket titledChange)))
   \<and> (\<forall>u. (''k1'', ContentUpdateEvent u)
          \<notin> set (delivered demoServer
                   (fst (onContentChange demoDb ''r2'' 7 daveSocket titledChange))))
   \<and> truthy (changeTitle titledChange)
   \<and> noteRepository (snd (onContentChange demoDb ''r2'' 7 daveSocket titledChange)) =
       [demoNote\<lparr>title := ''T2'', content := ''C2'', version := 2\<rparr>]
   \<and> \<not> truthy (changeTitle blankTitleChange)
   \<and> ''note:'' @ changeNoteId blankTitleChange \<in> currentRooms daveSocket
   \<and> snd (onContentChange demoDb ''r2'' 7 daveSocket blankTitleChange) = demoDb"
proof -
  have a: "socketUserId daveSocket = Some ''dave''" "''dave'' \<noteq> []"
    "socketUserId eveSocket = Some ''eve''" "''eve'' \<noteq> []"
    by (simp_all add: socket_defs)
  have m: "''note:'' @ changeNoteId titledChange \<notin> currentRooms eveSocket"
    "''note:'' @ changeNoteId titledChange \<in> currentRooms daveSocket"
    "''note:'' @ changeNoteId blankTitleChange \<in> currentRooms daveSocket"
    "bobSocket \<in> set (io demoServer)"
    "''note:'' @ changeNoteId titledChange \<in> joinedRooms bobSocket"
    "socketId bobSocket \<noteq> socketId daveSocket"
    "socketId bobSocket = ''k2''" "socketId daveSocket = ''k1''"
    by (simp_all add: socket_defs)
  have t: "truthy (changeTitle titledChange)" "\<not> truthy (changeTitle blankTitleChange)"
    by (simp_all add: truthy_def socket_defs)
  have f: "changeNoteId titledChange = ''n1''" "changeContent titledChange = ''C2''"
    "changeTitle titledChange = Some ''T2''" "changeCursorPosition titledChange = None"
    by (simp_all add: socket_defs)
  have u: "updateNote demoDb ''r2'' ''n1'' ''dave''
             \<lparr>patchTitle = Some ''T2'', patchContent = Some ''C2'', patchIsArchived = None\<rparr> =
           Inr (\<lparr>row = demoNote\<lparr>title := ''T2'', content := ''C2'', version := 2\<rparr>,
                 loadedShares = [bobShare, daveShare, carolShare],
                 attachedPermission = Some EDIT\<rparr>,
                demoDb\<lparr>revisionRepository :=
                         [firstRevision,
                          \<lparr>revisionId = ''r2'', revContent = ''C1'', revVersion = 1,
                           revNoteId = ''n1'', revUserId = ''dave''\<rparr>],
                       noteRepository :=
                         [demoNote\<lparr>title := ''T2'', content := ''C2'', version := 2\<rparr>]\<rparr>)"
    by (simp add: note_op_defs demo_defs)
  from onContentChange_relay [OF a(3,4), of titledChange demoDb "''r2''" 7 demoServer] m
  have e: "onContentChange demoDb ''r2'' 7 eveSocket titledChange = ([], demoDb)"
    by blast
  note dave = onContentChange_relay [OF a(1,2), of titledChange demoDb "''r2''" 7 demoServer]
  from dave m(2,4,5,6) have "(socketId bobSocket,
       ContentUpdateEvent
         \<lparr>updNoteId = changeNoteId titledChange, updContent = changeContent titledChange,
          updTitle = changeTitle titledChange,
          updCursorPosition = changeCursorPosition titledChange,
          updUserId = ''dave'', updTimestamp = 7\<rparr>)
        \<in> set (delivered demoServer
                 (fst (onContentChange demoDb ''r2'' 7 daveSocket titledChange)))"
    by blast
  then have b: "(''k2'',
       ContentUpdateEvent
         \<lparr>updNoteId = ''n1'', updContent = ''C2'', updTitle = Some ''T2'',
          updCursorPosition = None, updUserId = ''dave'', updTimestamp = 7\<rparr>)
        \<in> set (delivered demoServer
                 (fst (onContentChange demoDb ''r2'' 7 daveSocket titledChange)))"
    by (simp add: m f)
  from dave m(2) have "\<forall>u. (socketId daveSocket, ContentUpdateEvent u)
          \<notin> set (delivered demoServer
                   (fst (onContentChange demoDb ''r2'' 7 daveSocket titledChange)))"
    by blast
  then have n: "\<forall>u. (''k1'', ContentUpdateEvent u)
          \<notin> set (delivered demoServer
                   (fst (onContentChange demoDb ''r2'' 7 daveSocket titledChange)))"
    by (simp add: m)
  from dave m(2) t(1) have "snd (onContentChange demoDb ''r2'' 7 daveSocket titledChange) =
      (case updateNote demoDb ''r2'' (changeNoteId titledChange) ''dave''
              \<lparr>patchTitle = changeTitle titledChange,
               patchContent = Some (changeContent titledChange),
               patchIsArchived = None\<rparr> of
         Inl e \<Rightarrow> demoDb
       | Inr (saved, d') \<Rightarrow> d')"
    by blast
  then have p: "noteRepository (snd (onContentChange demoDb ''r2'' 7 daveSocket titledChange)) =
       [demoNote\<lparr>title := ''T2'', content := ''C2'', version := 2\<rparr>]"
    by (simp add: f u)
  from onContentChange_relay [OF a(1,2), of blankTitleChange demoDb "''r2''" 7 demoServer]
       m(3) t(2)
  have q: "snd (onContentChange demoDb ''r2'' 7 daveSocket blankTitleChange) = demoDb"
    by blast
  from a m t e b n p q show ?thesis by simp
qed

text \<open>
  Claim C10. A note service constructed with the socket service (as every controller
  constructs it) revokes a share whose \<open>sharedWithId\<close> is set: the \<open>share:updated\<close>
  event, carrying the note id, the share id, \<open>revoked = true\<close> and the share record
  with all its columns, is emitted with \<open>io.emit\<close> and reaches every connected
  socket, whatever rooms the socket has joined and whoever its user is.
\<close>

theorem revokeShare_broadcast_to_all:
  assumes ok: "revokeShare (Some srv) d sid uid = Inr (res, d', es)"
    and share: "findShareById d sid = Some share"
    and bound: "truthy (sharedWithId share)"
  shows "\<exists>payload.
           (ToAll, ShareUpdatedEvent payload) \<in> set es
         \<and> (\<forall>c \<in> set (io srv). (socketId c, ShareUpdatedEvent payload) \<in> set (delivered srv es))
         \<and> suNoteId payload = shareNoteId share
         \<and> suShareId payload = sid
         \<and> suRevoked payload = Some True
         \<and> (\<exists>sharedWith noteTitle.
               suShare payload =
                 Some (share\<lparr>isRevoked := True\<rparr>, sharedWith, shareNoteId share, noteTitle))"
proof -
  from share have i: "shareId share = sid"
    by (auto simp: findShareById_def dest: find_in_set)
  from bound obtain w where w: "sharedWithId share = Some w" "w \<noteq> []"
    by (auto simp: truthy_def split: option.splits)
  from ok share obtain ln where
    n: "getNoteById d (shareNoteId share) uid = Inr ln"
    by (auto simp: revokeShare_def split: sum.splits)
  define payload where "payload =
     \<lparr>suNoteId = shareNoteId share, suShareId = shareId share, suRevoked = Some True,
      suShare = Some (share\<lparr>isRevoked := True\<rparr>, findUser d w, shareNoteId share,
                      title (row ln))\<rparr>"
  from ok share n w have "(ToAll, ShareUpdatedEvent payload) \<in> set es"
    by (auto simp: revokeShare_def Let_def broadcastShareUpdate_def payload_def
          split: if_splits)
  then have "\<forall>c \<in> set (io srv). (socketId c, ShareUpdatedEvent payload) \<in> set (delivered srv es)"
    by (force simp: set_delivered)
  with \<open>(ToAll, ShareUpdatedEvent payload) \<in> set es\<close> i show ?thesis
    by (intro exI [of _ payload]) (simp add: payload_def)
qed

theorem revokeShare_broadcast_to_all_witness:
  "findShareById demoDb ''s1'' = Some bobShare
   \<and> truthy (sharedWithId bobShare)
   \<and> eveSocket \<in> set (io demoServer)
   \<and> ''note:n1'' \<notin> joinedRooms eveSocket
   \<and> (\<exists>d' es. revokeShare (Some demoServer) demoDb ''s1'' ''alice'' = Inr ((), d', es)
         \<and> (\<exists>payload.
               (\<forall>c \<in> set (io demoServer).
                  (socketId c, ShareUpdatedEvent payload) \<in> set (delivered demoServer es))
             \<and> suNoteId payload = ''n1''
             \<and> suShareId payload = ''s1''
             \<and> suRevoked payload = Some True
             \<and> (\<exists>sharedWith noteTitle.
                   suShare payload =
                     Some (bobShare\<lparr>isRevoked := True\<rparr>, sharedWith, ''n1'', noteTitle))))"
proof -
  have s: "findShareById demoDb ''s1'' = Some bobShare"
    by (simp add: findShareById_def demo_defs)
  have b: "truthy (sharedWithId bobShare)"
    by (simp add: truthy_def bobShare_def)
  have e: "eveSocket \<in> set (io demoServer)" "''note:n1'' \<notin> joinedRooms eveSocket"
    by (simp_all add: socket_defs)
  have n: "shareNoteId bobShare = ''n1''"
    by (simp add: bobShare_def)
  have "\<exists>d' es. revokeShare (Some demoServer) demoDb ''s1'' ''alice'' = Inr ((), d', es)"
    by (simp add: share_op_defs demo_defs)
  then obtain d' es where
    ok: "revokeShare (Some demoServer) demoDb ''s1'' ''alice'' = Inr ((), d', es)"
    by blast
  from revokeShare_broadcast_to_all [OF ok s b] n
  have "\<exists>payload.
               (\<forall>c \<in> set (io demoServer).
                  (socketId c, ShareUpdatedEvent payload) \<in> set (delivered demoServer es))
             \<and> suNoteId payload = ''n1''
             \<and> suShareId payload = ''s1''
             \<and> suRevoked payload = Some True
             \<and> (\<exists>sharedWith noteTitle.
                   suShare payload =
                     Some (bobShare\<lparr>isRevoked := True\<rparr>, sharedWith, ''n1'', noteTitle))"
    by auto
  with ok s b e show ?thesis by blast
qed

end
